theory Spec2Isabelle
  imports Complex_Main
begin

section \<open>The MPC problem formulation of \<^verbatim>\<open>src/MPC.cpp\<close>\<close>

text \<open>
  The file holds the evaluator \<^verbatim>\<open>FG_eval::operator()\<close> (objective and constraint rows of
  the nonlinear program) and \<^verbatim>\<open>MPC::Solve\<close> (seed, bounds, solver call, result). Both are
  embedded below statement by statement.

  Numbers: the source computes in \<^verbatim>\<open>double\<close> (through \<^verbatim>\<open>CppAD::AD<double>\<close> in the
  evaluator). The embedding computes in \<^typ>\<open>real\<close>: rounding, infinities and NaN are not
  represented, and \<open>CppAD::pow(u, 2)\<close> is \<open>u ^ 2\<close>. A division by \<open>Lf = 0\<close> yields an
  infinity or a NaN in the source and \<open>0\<close> in HOL, so statements about the values of the
  rows that divide by \<open>Lf\<close> carry the hypothesis \<open>Lf \<noteq> 0\<close>.

  Vectors (\<^verbatim>\<open>CppAD::vector\<close>, \<^verbatim>\<open>Eigen::VectorXd\<close>) are lists. An index outside the vector
  trips the index assertion of the vector class; the embedding makes that the error value
  \<open>IndexOutOfRange\<close>, which ends the computation.
\<close>

subsection \<open>Errors and vector access\<close>

datatype error = IndexOutOfRange

definition and_then :: "error + 'a \<Rightarrow> ('a \<Rightarrow> error + 'b) \<Rightarrow> error + 'b" where
  "and_then m f = (case m of Inl e \<Rightarrow> Inl e | Inr v \<Rightarrow> f v)"

text \<open>\<^verbatim>\<open>v[i]\<close> as a read and \<^verbatim>\<open>v[i] = c\<close> as a write.\<close>

definition vget :: "real list \<Rightarrow> nat \<Rightarrow> error + real" where
  "vget v i = (if i < length v then Inr (v ! i) else Inl IndexOutOfRange)"

definition vset :: "real list \<Rightarrow> nat \<Rightarrow> real \<Rightarrow> error + real list" where
  "vset v i c = (if i < length v then Inr (v[i := c]) else Inl IndexOutOfRange)"

text \<open>
  \<^verbatim>\<open>Dvector v(n)\<close>: a fresh vector of \<open>n\<close> entries. The source leaves the entries
  unset, so what a fresh vector holds is not determined by the program: it is a parameter
  \<open>u\<close> of the embedding, entry \<open>i\<close> of the fresh vector being \<open>u i\<close>. Whatever the source
  relies on, it has to write.
\<close>

definition Dvector :: "(nat \<Rightarrow> real) \<Rightarrow> nat \<Rightarrow> real list" where
  "Dvector u n = map u [0..<n]"

text \<open>
  \<open>Solve\<close> declares five such vectors: \<open>unset k\<close> gives the content of the \<open>k\<close>-th one
  (\<open>vars\<close>, \<open>vars_lowerbound\<close>, \<open>vars_upperbound\<close>, \<open>constraints_lowerbound\<close>,
  \<open>constraints_upperbound\<close>, counted from \<open>0\<close>) before the program writes to it.
\<close>

type_synonym unset = "nat \<Rightarrow> nat \<Rightarrow> real"

text \<open>
  \<^verbatim>\<open>for (int t = lo; t < hi; t++) body\<close> is \<open>for_loop [lo..<hi] body\<close>: the body takes the
  loop-carried state and the index, and an error in the body ends the loop.
\<close>

fun for_loop :: "nat list \<Rightarrow> ('s \<Rightarrow> nat \<Rightarrow> error + 's) \<Rightarrow> 's \<Rightarrow> error + 's" where
  "for_loop [] body s = Inr s"
| "for_loop (t # ts) body s = and_then (body s t) (for_loop ts body)"

subsection \<open>Horizon parameters and index layout\<close>

text \<open>
  \<^verbatim>\<open>MPC.cpp\<close> uses \<open>N\<close>, \<open>dt\<close>, \<open>Lf\<close>, \<open>ref_v\<close> and the eight offsets \<open>x_start\<close> ...
  \<open>a_start\<close> without declaring them: they come from \<^verbatim>\<open>MPC.h\<close>, which is not part of the
  sources at hand. The four tunables are parameters of the embedding. \<open>N\<close> is a natural
  number, so \<open>N - 1\<close> and \<open>N - 2\<close> stop at \<open>0\<close>, which is what the loop guards
  \<^verbatim>\<open>t < N - 1\<close> and \<^verbatim>\<open>t < N - 2\<close> do for a signed \<open>N\<close>; the statements below are for
  \<open>N \<ge> 1\<close>.
\<close>

record config =
  N :: nat
  dt :: real
  Lf :: real
  ref_v :: real

text \<open>
  Modelled from the spec: the offsets \<open>x_start\<close> ... \<open>a_start\<close> of \<^verbatim>\<open>MPC.h\<close>. The spec's
  DecisionVector holds "contiguously per field across all N timesteps, the six state
  channels (x, y, psi, v, cte, epsi) followed by the two control channels (steering angle
  delta, acceleration a) across N-1 actuation steps"; the source addresses step \<open>t\<close> of a
  channel as \<open>start + t\<close>.
\<close>

definition x_start :: "config \<Rightarrow> nat" where
  "x_start cfg = 0"

definition y_start :: "config \<Rightarrow> nat" where
  "y_start cfg = x_start cfg + N cfg"

definition psi_start :: "config \<Rightarrow> nat" where
  "psi_start cfg = y_start cfg + N cfg"

definition v_start :: "config \<Rightarrow> nat" where
  "v_start cfg = psi_start cfg + N cfg"

definition cte_start :: "config \<Rightarrow> nat" where
  "cte_start cfg = v_start cfg + N cfg"

definition epsi_start :: "config \<Rightarrow> nat" where
  "epsi_start cfg = cte_start cfg + N cfg"

definition delta_start :: "config \<Rightarrow> nat" where
  "delta_start cfg = epsi_start cfg + N cfg"

definition a_start :: "config \<Rightarrow> nat" where
  "a_start cfg = delta_start cfg + N cfg - 1"

subsection \<open>\<^verbatim>\<open>FG_eval::operator()\<close>\<close>

text \<open>The bodies of the four cost loops; the loop-carried state is \<open>cost\<close>.\<close>

definition cost_reference :: "config \<Rightarrow> real list \<Rightarrow> real \<Rightarrow> nat \<Rightarrow> error + real" where
  "cost_reference cfg vars cost t =
     and_then (vget vars (cte_start cfg + t)) (\<lambda>c.
     and_then (vget vars (epsi_start cfg + t)) (\<lambda>e.
       Inr (cost + 1000 * c ^ 2 + 1000 * e ^ 2)))"

definition cost_speed :: "config \<Rightarrow> real list \<Rightarrow> real \<Rightarrow> nat \<Rightarrow> error + real" where
  "cost_speed cfg vars cost t =
     and_then (vget vars (v_start cfg + t)) (\<lambda>v.
       Inr (cost + 10 * (v - ref_v cfg) ^ 2))"

definition cost_actuators :: "config \<Rightarrow> real list \<Rightarrow> real \<Rightarrow> nat \<Rightarrow> error + real" where
  "cost_actuators cfg vars cost t =
     and_then (vget vars (delta_start cfg + t)) (\<lambda>d.
     and_then (vget vars (a_start cfg + t)) (\<lambda>a.
       Inr (cost + 3 * d ^ 2 + 3 * a ^ 2)))"

definition cost_actuator_speed :: "config \<Rightarrow> real list \<Rightarrow> real \<Rightarrow> nat \<Rightarrow> error + real" where
  "cost_actuator_speed cfg vars cost t =
     and_then (vget vars (delta_start cfg + t + 1)) (\<lambda>d1.
     and_then (vget vars (delta_start cfg + t)) (\<lambda>d0.
     and_then (vget vars (a_start cfg + t + 1)) (\<lambda>a1.
     and_then (vget vars (a_start cfg + t)) (\<lambda>a0.
       Inr (cost + 1000 * (d1 - d0) ^ 2 + 1 * (a1 - a0) ^ 2)))))"

text \<open>The six assignments \<^verbatim>\<open>fg[1 + k_start] = vars[k_start]\<close>.\<close>

definition initial_constraints :: "config \<Rightarrow> real list \<Rightarrow> real list \<Rightarrow> error + real list" where
  "initial_constraints cfg vars fg =
     and_then (vget vars (x_start cfg)) (\<lambda>c. and_then (vset fg (1 + x_start cfg) c) (\<lambda>fg.
     and_then (vget vars (y_start cfg)) (\<lambda>c. and_then (vset fg (1 + y_start cfg) c) (\<lambda>fg.
     and_then (vget vars (psi_start cfg)) (\<lambda>c. and_then (vset fg (1 + psi_start cfg) c) (\<lambda>fg.
     and_then (vget vars (v_start cfg)) (\<lambda>c. and_then (vset fg (1 + v_start cfg) c) (\<lambda>fg.
     and_then (vget vars (cte_start cfg)) (\<lambda>c. and_then (vset fg (1 + cte_start cfg) c) (\<lambda>fg.
     and_then (vget vars (epsi_start cfg)) (\<lambda>c. vset fg (1 + epsi_start cfg) c)))))))))))"

text \<open>
  The body of the loop over \<open>t = 1 ..< N\<close> ("the rest of the constraints"); the loop-carried
  state is \<open>fg\<close>. \<open>cte0\<close> is read and not used, as in the source.
\<close>

definition model_constraints ::
  "config \<Rightarrow> real list \<Rightarrow> real list \<Rightarrow> real list \<Rightarrow> nat \<Rightarrow> error + real list" where
  "model_constraints cfg coeffs vars fg t =
     and_then (vget vars (x_start cfg + t - 1)) (\<lambda>x0.
     and_then (vget vars (y_start cfg + t - 1)) (\<lambda>y0.
     and_then (vget vars (psi_start cfg + t - 1)) (\<lambda>psi0.
     and_then (vget vars (v_start cfg + t - 1)) (\<lambda>v0.
     and_then (vget vars (cte_start cfg + t - 1)) (\<lambda>cte0.
     and_then (vget vars (epsi_start cfg + t - 1)) (\<lambda>epsi0.
     and_then (vget vars (delta_start cfg + t - 1)) (\<lambda>delta0.
     and_then (vget vars (a_start cfg + t - 1)) (\<lambda>a0.
     and_then (vget vars (x_start cfg + t)) (\<lambda>x1.
     and_then (vget vars (y_start cfg + t)) (\<lambda>y1.
     and_then (vget vars (psi_start cfg + t)) (\<lambda>psi1.
     and_then (vget vars (v_start cfg + t)) (\<lambda>v1.
     and_then (vget vars (cte_start cfg + t)) (\<lambda>cte1.
     and_then (vget vars (epsi_start cfg + t)) (\<lambda>epsi1.
     and_then (vget coeffs 0) (\<lambda>c0.
     and_then (vget coeffs 1) (\<lambda>c1.
     and_then (vget coeffs 2) (\<lambda>c2.
     and_then (vget coeffs 3) (\<lambda>c3.
       let f0 = c0 + c1 * x0 + c2 * x0 * x0 + c3 * x0 * x0 * x0;
           psides0 = arctan (3 * c3 * x0 * x0 + 2 * c2 * x0 + c1)
       in
     and_then (vset fg (1 + x_start cfg + t) (x1 - (x0 + v0 * cos psi0 * dt cfg))) (\<lambda>fg.
     and_then (vset fg (1 + y_start cfg + t) (y1 - (y0 + v0 * sin psi0 * dt cfg))) (\<lambda>fg.
     and_then (vset fg (1 + psi_start cfg + t)
                 (psi1 - (psi0 + (v0 / Lf cfg) * delta0 * dt cfg))) (\<lambda>fg.
     and_then (vset fg (1 + v_start cfg + t) (v1 - (v0 + a0 * dt cfg))) (\<lambda>fg.
     and_then (vset fg (1 + cte_start cfg + t)
                 (cte1 - ((f0 - y0) + (v0 * sin epsi0 * dt cfg)))) (\<lambda>fg.
     vset fg (1 + epsi_start cfg + t)
       (epsi1 - ((psi0 - psides0) + v0 * delta0 / Lf cfg * dt cfg))
     )))))))))))))))))))))))"

text \<open>
  \<open>FG_eval cfg coeffs fg vars\<close> is \<^verbatim>\<open>FG_eval(coeffs)(fg, vars)\<close>; the result is \<open>fg\<close>
  after the call.
\<close>

definition FG_eval :: "config \<Rightarrow> real list \<Rightarrow> real list \<Rightarrow> real list \<Rightarrow> error + real list" where
  "FG_eval cfg coeffs fg vars =
     and_then (vset fg 0 0) (\<lambda>fg.
     and_then (for_loop [0..<N cfg] (cost_reference cfg vars) 0) (\<lambda>cost.
     and_then (for_loop [1..<N cfg] (cost_speed cfg vars) cost) (\<lambda>cost.
     and_then (for_loop [0..<N cfg - 1] (cost_actuators cfg vars) cost) (\<lambda>cost.
     and_then (for_loop [0..<N cfg - 2] (cost_actuator_speed cfg vars) cost) (\<lambda>cost.
     and_then (vset fg 0 cost) (\<lambda>fg.
     and_then (initial_constraints cfg vars fg) (\<lambda>fg.
     for_loop [1..<N cfg] (model_constraints cfg coeffs vars) fg)))))))"

subsection \<open>The solver interface\<close>

text \<open>
  \<^verbatim>\<open>CppAD::ipopt::solve\<close> is an external library. \<open>nlp\<close> collects the arguments that
  \<open>Solve\<close> passes to it, \<open>solve_result\<close> the fields of the result that \<open>Solve\<close> reads,
  \<open>status_type\<close> is the library's status enumeration. The solver itself is a parameter of
  \<open>Solve\<close>: any function from the problem and the program state to a result and the
  program state it leaves, or to an error when the call does not return (an index
  assertion inside the evaluator it calls).
\<close>

datatype status_type =
    not_defined | success | maxiter_exceeded | stop_at_tiny_step
  | stop_at_acceptable_point | local_infeasibility | user_requested_stop
  | feasible_point_found | diverging_iterates | restoration_failure
  | error_in_step_computation | invalid_number_detected
  | too_few_degrees_of_freedom | internal_error | unknown

record solve_result =
  status :: status_type
  x :: "real list"
  obj_value :: real

record nlp =
  options :: "string list"
  xi :: "real list"
  xl :: "real list"
  xu :: "real list"
  gl :: "real list"
  gu :: "real list"
  fg_eval :: "real list \<Rightarrow> real list \<Rightarrow> error + real list"

text \<open>What \<^verbatim>\<open>std::cout\<close> receives, item by item.\<close>

datatype out_item = Str string | Dbl real | Endl

text \<open>
  The program state outside the local variables of \<open>Solve\<close>: what has been written to
  \<^verbatim>\<open>std::cout\<close> so far, and everything else (the data members of the \<open>MPC\<close> object, the
  globals), of a type \<open>'m\<close> that is left open because \<^verbatim>\<open>MPC.h\<close> is not at hand.
\<close>

record 'm world =
  cout :: "out_item list"
  members :: 'm

type_synonym 'm solver = "nlp \<Rightarrow> 'm world \<Rightarrow> error + solve_result \<times> 'm world"

subsection \<open>\<^verbatim>\<open>MPC::Solve\<close>\<close>

text \<open>
  The six assignments \<^verbatim>\<open>v[x_start] = state[0]; ... v[epsi_start] = state[5];\<close>. The source
  has this block three times: on \<open>vars\<close>, on \<open>constraints_lowerbound\<close> and on
  \<open>constraints_upperbound\<close>.
\<close>

definition set_initial_state :: "config \<Rightarrow> real list \<Rightarrow> real list \<Rightarrow> error + real list" where
  "set_initial_state cfg state v =
     and_then (vget state 0) (\<lambda>c. and_then (vset v (x_start cfg) c) (\<lambda>v.
     and_then (vget state 1) (\<lambda>c. and_then (vset v (y_start cfg) c) (\<lambda>v.
     and_then (vget state 2) (\<lambda>c. and_then (vset v (psi_start cfg) c) (\<lambda>v.
     and_then (vget state 3) (\<lambda>c. and_then (vset v (v_start cfg) c) (\<lambda>v.
     and_then (vget state 4) (\<lambda>c. and_then (vset v (cte_start cfg) c) (\<lambda>v.
     and_then (vget state 5) (\<lambda>c. vset v (epsi_start cfg) c)))))))))))"

text \<open>The body of the three loops that fill \<open>vars_lowerbound\<close> and \<open>vars_upperbound\<close>.\<close>

definition set_bounds ::
  "real \<Rightarrow> real \<Rightarrow> real list \<times> real list \<Rightarrow> nat \<Rightarrow> error + real list \<times> real list" where
  "set_bounds lo up lu i =
     and_then (vset (fst lu) i lo) (\<lambda>l.
     and_then (vset (snd lu) i up) (\<lambda>u. Inr (l, u)))"

text \<open>The option lines appended to the string \<^verbatim>\<open>options\<close>, one per line.\<close>

definition solver_options :: "string list" where
  "solver_options =
     [''Integer print_level  0'', ''Sparse  true        forward'',
      ''Sparse  true        reverse'', ''Numeric max_cpu_time          0.5'']"

text \<open>
  \<open>Solve_setup\<close> is \<open>Solve\<close> from its first line to the call of the solver: it returns the
  arguments of that call.
\<close>

definition Solve_setup :: "config \<Rightarrow> unset \<Rightarrow> real list \<Rightarrow> real list \<Rightarrow> error + nlp" where
  "Solve_setup cfg unset state coeffs =
    (let n_vars = N cfg * 6 + (N cfg - 1) * 2;
         n_constraints = N cfg * 6
     in
     and_then (for_loop [0..<n_vars] (\<lambda>v i. vset v i 0) (Dvector (unset 0) n_vars)) (\<lambda>vars.
     and_then (set_initial_state cfg state vars) (\<lambda>vars.
     and_then (for_loop [0..<delta_start cfg] (set_bounds (- (10 ^ 19)) (10 ^ 19))
                 (Dvector (unset 1) n_vars, Dvector (unset 2) n_vars)) (\<lambda>lu.
     and_then (for_loop [delta_start cfg..<a_start cfg] (set_bounds (- 0.436332) 0.436332) lu) (\<lambda>lu.
     and_then (for_loop [a_start cfg..<n_vars] (set_bounds (- 1) 1) lu) (\<lambda>lu.
     and_then (for_loop [0..<n_constraints] (set_bounds 0 0)
                 (Dvector (unset 3) n_constraints, Dvector (unset 4) n_constraints)) (\<lambda>clu.
     and_then (set_initial_state cfg state (fst clu)) (\<lambda>constraints_lowerbound.
     and_then (set_initial_state cfg state (snd clu)) (\<lambda>constraints_upperbound.
       Inr \<lparr> options = solver_options,
             xi = vars, xl = fst lu, xu = snd lu,
             gl = constraints_lowerbound, gu = constraints_upperbound,
             fg_eval = FG_eval cfg coeffs \<rparr>)))))))))"

text \<open>
  \<open>Solve cfg unset solver state coeffs w\<close>: the setup, the call of the solver, the line
  written to \<^verbatim>\<open>std::cout\<close> and the copy of \<^verbatim>\<open>solution.x\<close> into the returned vector, in
  the program state \<open>w\<close>. The result is the returned vector and the program state after
  the call. \<open>ok\<close> is computed and not read again, as in the source.
\<close>

definition Solve ::
  "config \<Rightarrow> unset \<Rightarrow> 'm solver \<Rightarrow> real list \<Rightarrow> real list \<Rightarrow> 'm world
     \<Rightarrow> error + real list \<times> 'm world" where
  "Solve cfg unset solver state coeffs w =
     and_then (Solve_setup cfg unset state coeffs) (\<lambda>problem.
     and_then (solver problem w) (\<lambda>(solution, w).
       let ok = (True \<and> status solution = success);
           cost = obj_value solution;
           w = w\<lparr>cout := cout w @ [Str ''Cost '', Dbl cost, Endl]\<rparr>
       in
     and_then (for_loop [0..<length (x solution)]
                 (\<lambda>ret i. and_then (vget (x solution) i) (\<lambda>c. Inr (ret @ [c]))) []) (\<lambda>ret.
       Inr (ret, w))))"

subsection \<open>Specification-side notions\<close>

text \<open>
  The predicted state of the spec (section 4.2, "Dynamics transcription"), written after
  the spec's formulas and not after the source: the six predictions for step \<open>t\<close> from
  the values of step \<open>t - 1\<close>, in the order x, y, psi, v, cte, epsi. It is what the rows
  computed by \<open>FG_eval\<close> are compared with.
\<close>

definition spec_predicted :: "config \<Rightarrow> real list \<Rightarrow> real list \<Rightarrow> nat \<Rightarrow> real list" where
  "spec_predicted cfg coeff vars t =
     (let x0 = vars ! (x_start cfg + t - 1);
          y0 = vars ! (y_start cfg + t - 1);
          psi0 = vars ! (psi_start cfg + t - 1);
          v0 = vars ! (v_start cfg + t - 1);
          epsi0 = vars ! (epsi_start cfg + t - 1);
          delta0 = vars ! (delta_start cfg + t - 1);
          a0 = vars ! (a_start cfg + t - 1);
          f0 = coeff ! 0 + coeff ! 1 * x0 + coeff ! 2 * x0 ^ 2 + coeff ! 3 * x0 ^ 3;
          psides0 = arctan (3 * coeff ! 3 * x0 ^ 2 + 2 * coeff ! 2 * x0 + coeff ! 1)
      in [x0 + v0 * cos psi0 * dt cfg,
          y0 + v0 * sin psi0 * dt cfg,
          psi0 + (v0 / Lf cfg) * delta0 * dt cfg,
          v0 + a0 * dt cfg,
          (f0 - y0) + v0 * sin epsi0 * dt cfg,
          (psi0 - psides0) + v0 * delta0 / Lf cfg * dt cfg])"

text \<open>
  Feasibility in the sense of the solver's interface: a point is feasible for a problem
  when it lies within the variable bounds and the rows \<open>fg[1], fg[2], ...\<close> that the
  evaluator computes at it lie within the constraint bounds. \<open>fg0\<close> is the vector that
  the evaluator is handed to write into, with one entry for the objective and one per
  constraint; what it holds before the call is not determined.
\<close>

definition feasible :: "nlp \<Rightarrow> real list \<Rightarrow> real list \<Rightarrow> bool" where
  "feasible p fg0 pt \<longleftrightarrow>
     list_all2 (\<le>) (xl p) pt \<and> list_all2 (\<le>) pt (xu p) \<and>
     (case fg_eval p fg0 pt of
        Inl e \<Rightarrow> False
      | Inr fg \<Rightarrow> list_all2 (\<le>) (gl p) (tl fg) \<and> list_all2 (\<le>) (tl fg) (gu p))"

subsection \<open>Instances for the examples\<close>

text \<open>
  Two instances of the external solver. \<open>halting_solver\<close> stops at once and hands back
  the starting point with a given status and objective value. \<open>probing_solver\<close> evaluates
  the objective and the constraints once, at the starting point, and hands back the
  starting point with the objective it found and a given status. Both leave the program
  state as it is.
\<close>

definition halting_solver :: "status_type \<Rightarrow> real \<Rightarrow> 'm solver" where
  "halting_solver st obj problem w =
     Inr (\<lparr> status = st, x = xi problem, obj_value = obj \<rparr>, w)"

definition probing_solver :: "status_type \<Rightarrow> 'm solver" where
  "probing_solver st problem w =
     and_then (fg_eval problem (replicate (1 + length (gl problem)) 1) (xi problem)) (\<lambda>fg.
       Inr (\<lparr> status = st, x = xi problem, obj_value = fg ! 0 \<rparr>, w))"

text \<open>
  An instance of what the fresh vectors hold before they are written: no entry is \<open>0\<close>
  or one of the bounds.
\<close>

definition stale :: unset where
  "stale k i = 77 + real k + real i"

section \<open>Basic facts\<close>

lemmas start_defs =
  x_start_def y_start_def psi_start_def v_start_def cte_start_def epsi_start_def
  delta_start_def a_start_def

lemma and_then_Inr [simp]: "and_then (Inr v) f = f v"
  by (simp add: and_then_def)

lemma and_then_Inl [simp]: "and_then (Inl e) f = Inl e"
  by (simp add: and_then_def)

lemma and_then_eq_Inr: "and_then m f = Inr r \<longleftrightarrow> (\<exists>v. m = Inr v \<and> f v = Inr r)"
  by (cases m) simp_all

lemma vget_eq_Inr: "vget v i = Inr c \<longleftrightarrow> i < length v \<and> c = v ! i"
  by (auto simp: vget_def)

lemma vset_eq_Inr: "vset v i c = Inr w \<longleftrightarrow> i < length v \<and> w = v[i := c]"
  by (auto simp: vset_def)

lemma vget_in_range: "i < length v \<Longrightarrow> vget v i = Inr (v ! i)"
  by (simp add: vget_def)

lemma vset_in_range: "i < length v \<Longrightarrow> vset v i c = Inr (v[i := c])"
  by (simp add: vset_def)

lemma for_loop_append:
  "for_loop (ts @ us) body s = and_then (for_loop ts body s) (for_loop us body)"
  by (induction ts arbitrary: s) (simp_all add: and_then_def split: sum.splits)

lemma for_loop_snoc:
  "for_loop (ts @ [t]) body s = and_then (for_loop ts body s) (\<lambda>s'. body s' t)"
proof -
  have "for_loop [t] body = (\<lambda>s'. body s' t)"
    by (rule ext) (simp add: and_then_def split: sum.splits)
  then show ?thesis by (simp add: for_loop_append)
qed

text \<open>Invariant rule: the invariant is indexed by the indices already processed.\<close>

lemma for_loop_invariant:
  assumes run: "for_loop ts body s = Inr s'"
    and init: "I [] s"
    and step: "\<And>ds t rest s1 s2. ts = ds @ t # rest \<Longrightarrow> I ds s1 \<Longrightarrow> body s1 t = Inr s2
                 \<Longrightarrow> I (ds @ [t]) s2"
  shows "I ts s'"
proof -
  have "for_loop us body s1 = Inr s' \<Longrightarrow> ts = ds @ us \<Longrightarrow> I ds s1 \<Longrightarrow> I ts s'" for us ds s1
  proof (induction us arbitrary: ds s1)
    case Nil
    then show ?case by simp
  next
    case (Cons t us)
    from Cons.prems(1) obtain s2 where b: "body s1 t = Inr s2" and r: "for_loop us body s2 = Inr s'"
      by (auto simp: and_then_eq_Inr)
    have "I (ds @ [t]) s2" using step [OF Cons.prems(2) Cons.prems(3) b] .
    with Cons.IH [OF r, of "ds @ [t]"] Cons.prems(2) show ?case by simp
  qed
  from this [OF run, of "[]"] init show ?thesis by simp
qed

text \<open>Totality rule: a body that succeeds on every index makes the loop succeed.\<close>

lemma for_loop_returns:
  assumes "\<And>t s1. t \<in> set ts \<Longrightarrow> J s1 \<Longrightarrow> \<exists>s2. body s1 t = Inr s2 \<and> J s2"
    and "J s"
  shows "\<exists>s'. for_loop ts body s = Inr s' \<and> J s'"
  using assms
proof (induction ts arbitrary: s)
  case Nil
  then show ?case by simp
next
  case (Cons t ts)
  from Cons.prems(1) [of t s] Cons.prems(2) obtain s2 where b: "body s t = Inr s2" and j: "J s2"
    by auto
  have "\<exists>s'. for_loop ts body s2 = Inr s' \<and> J s'"
    by (rule Cons.IH) (use Cons.prems(1) j in auto)
  with b show ?case by simp
qed

subsection \<open>Setup loops\<close>

lemma for_loop_set_bounds:
  "b \<le> length l \<Longrightarrow> b \<le> length u \<Longrightarrow>
   for_loop [a..<b] (set_bounds lo up) (l, u) =
     Inr (map (\<lambda>i. if a \<le> i \<and> i < b then lo else l ! i) [0..<length l],
          map (\<lambda>i. if a \<le> i \<and> i < b then up else u ! i) [0..<length u])"
proof (induction b)
  case 0
  then show ?case by (simp add: map_nth)
next
  case (Suc b)
  show ?case
  proof (cases "a \<le> b")
    case False
    then have "map (\<lambda>i. if a \<le> i \<and> i < Suc b then lo else l ! i) [0..<length l] = l"
      and "map (\<lambda>i. if a \<le> i \<and> i < Suc b then up else u ! i) [0..<length u] = u"
      by (auto intro!: nth_equalityI)
    with False show ?thesis by simp
  next
    case True
    then have upt: "[a..<Suc b] = [a..<b] @ [b]" by simp
    have l: "(map (\<lambda>i. if a \<le> i \<and> i < b then lo else l ! i) [0..<length l])[b := lo]
               = map (\<lambda>i. if a \<le> i \<and> i < Suc b then lo else l ! i) [0..<length l]"
      using True Suc.prems by (intro nth_equalityI) (auto simp: nth_list_update)
    have u: "(map (\<lambda>i. if a \<le> i \<and> i < b then up else u ! i) [0..<length u])[b := up]
               = map (\<lambda>i. if a \<le> i \<and> i < Suc b then up else u ! i) [0..<length u]"
      using True Suc.prems by (intro nth_equalityI) (auto simp: nth_list_update)
    from Suc have "for_loop [a..<b] (set_bounds lo up) (l, u) =
        Inr (map (\<lambda>i. if a \<le> i \<and> i < b then lo else l ! i) [0..<length l],
             map (\<lambda>i. if a \<le> i \<and> i < b then up else u ! i) [0..<length u])"
      by simp
    then have "for_loop [a..<Suc b] (set_bounds lo up) (l, u) =
        set_bounds lo up
          (map (\<lambda>i. if a \<le> i \<and> i < b then lo else l ! i) [0..<length l],
           map (\<lambda>i. if a \<le> i \<and> i < b then up else u ! i) [0..<length u]) b"
      by (simp only: upt for_loop_snoc and_then_Inr)
    also have "\<dots> =
        Inr (map (\<lambda>i. if a \<le> i \<and> i < Suc b then lo else l ! i) [0..<length l],
             map (\<lambda>i. if a \<le> i \<and> i < Suc b then up else u ! i) [0..<length u])"
      using Suc.prems by (simp add: set_bounds_def vset_def l u)
    finally show ?thesis .
  qed
qed

lemma for_loop_fill:
  "for_loop [0..<length v] (\<lambda>v i. vset v i c) v = Inr (replicate (length v) c)"
proof -
  have "b \<le> length v \<Longrightarrow>
          for_loop [0..<b] (\<lambda>v i. vset v i c) v = Inr (replicate b c @ drop b v)" for b
  proof (induction b)
    case 0
    then show ?case by simp
  next
    case (Suc b)
    then have "(replicate b c @ drop b v)[b := c] = replicate (Suc b) c @ drop (Suc b) v"
      by (intro nth_equalityI)
        (auto simp: nth_list_update nth_append less_Suc_eq simp del: replicate_Suc)
    with Suc show ?case
      unfolding upt_Suc_append [OF le0] for_loop_snoc by (simp add: vset_def)
  qed
  from this [of "length v"] show ?thesis by simp
qed

lemma set_initial_state_closed:
  assumes "6 \<le> length state" and "0 < N cfg" and "N cfg * 6 \<le> length v"
  shows "set_initial_state cfg state v =
           Inr (v[x_start cfg := state ! 0, y_start cfg := state ! 1,
                  psi_start cfg := state ! 2, v_start cfg := state ! 3,
                  cte_start cfg := state ! 4, epsi_start cfg := state ! 5])"
proof -
  from assms have "N cfg * 5 < length v" and "v \<noteq> []" and "state \<noteq> []" by auto
  with assms(1) show ?thesis
    by (simp add: set_initial_state_def vget_def vset_def start_defs)
qed

lemma Solve_setup_closed:
  assumes n: "0 < N cfg" and st: "6 \<le> length state"
  shows "Solve_setup cfg unset state coeffs =
    Inr \<lparr> options = solver_options,
          xi = (replicate (N cfg * 6 + (N cfg - 1) * 2) 0)
                 [x_start cfg := state ! 0, y_start cfg := state ! 1,
                  psi_start cfg := state ! 2, v_start cfg := state ! 3,
                  cte_start cfg := state ! 4, epsi_start cfg := state ! 5],
          xl = map (\<lambda>i. if i < delta_start cfg then - (10 ^ 19)
                          else if i < a_start cfg then - 0.436332 else - 1)
                 [0..<N cfg * 6 + (N cfg - 1) * 2],
          xu = map (\<lambda>i. if i < delta_start cfg then 10 ^ 19
                          else if i < a_start cfg then 0.436332 else 1)
                 [0..<N cfg * 6 + (N cfg - 1) * 2],
          gl = (replicate (N cfg * 6) 0)
                 [x_start cfg := state ! 0, y_start cfg := state ! 1,
                  psi_start cfg := state ! 2, v_start cfg := state ! 3,
                  cte_start cfg := state ! 4, epsi_start cfg := state ! 5],
          gu = (replicate (N cfg * 6) 0)
                 [x_start cfg := state ! 0, y_start cfg := state ! 1,
                  psi_start cfg := state ! 2, v_start cfg := state ! 3,
                  cte_start cfg := state ! 4, epsi_start cfg := state ! 5],
          fg_eval = FG_eval cfg coeffs \<rparr>"
proof -
  define nv where "nv = N cfg * 6 + (N cfg - 1) * 2"
  define nc where "nc = N cfg * 6"
  have ds: "delta_start cfg = nc" and as: "a_start cfg = nc + (N cfg - 1)"
    using n by (simp_all add: start_defs nc_def)
  have nv: "nv = nc + (N cfg - 1) + (N cfg - 1)" by (simp add: nv_def nc_def)
  have s1: "for_loop [0..<nv] (\<lambda>v i. vset v i 0) (Dvector (unset 0) nv) = Inr (replicate nv 0)"
    using for_loop_fill [of "Dvector (unset 0) nv" 0] by (simp add: Dvector_def)
  have s2: "set_initial_state cfg state (replicate m 0) =
      Inr ((replicate m 0) [x_start cfg := state ! 0, y_start cfg := state ! 1,
                  psi_start cfg := state ! 2, v_start cfg := state ! 3,
                  cte_start cfg := state ! 4, epsi_start cfg := state ! 5])"
    if "nc \<le> m" for m
    using set_initial_state_closed [OF st n, of "replicate m 0"] that by (simp add: nc_def)
  have s3: "for_loop [0..<nc] (set_bounds (- (10 ^ 19)) (10 ^ 19))
              (Dvector (unset 1) nv, Dvector (unset 2) nv) =
      Inr (map (\<lambda>i. if i < nc then - (10 ^ 19) else unset 1 i) [0..<nv],
           map (\<lambda>i. if i < nc then 10 ^ 19 else unset 2 i) [0..<nv])"
    by (subst for_loop_set_bounds) (auto simp: Dvector_def nv)
  have s4: "for_loop [nc..<nc + (N cfg - 1)] (set_bounds (- 0.436332) 0.436332)
              (map (\<lambda>i. if i < nc then - (10 ^ 19) else unset 1 i) [0..<nv],
               map (\<lambda>i. if i < nc then 10 ^ 19 else unset 2 i) [0..<nv]) =
      Inr (map (\<lambda>i. if i < nc then - (10 ^ 19)
                     else if i < nc + (N cfg - 1) then - 0.436332 else unset 1 i) [0..<nv],
           map (\<lambda>i. if i < nc then 10 ^ 19
                     else if i < nc + (N cfg - 1) then 0.436332 else unset 2 i) [0..<nv])"
    by (subst for_loop_set_bounds) (auto simp: nv)
  have s5: "for_loop [nc + (N cfg - 1)..<nv] (set_bounds (- 1) 1)
              (map (\<lambda>i. if i < nc then - (10 ^ 19)
                     else if i < nc + (N cfg - 1) then - 0.436332 else unset 1 i) [0..<nv],
               map (\<lambda>i. if i < nc then 10 ^ 19
                     else if i < nc + (N cfg - 1) then 0.436332 else unset 2 i) [0..<nv]) =
      Inr (map (\<lambda>i. if i < nc then - (10 ^ 19)
                     else if i < nc + (N cfg - 1) then - 0.436332 else - 1) [0..<nv],
           map (\<lambda>i. if i < nc then 10 ^ 19
                     else if i < nc + (N cfg - 1) then 0.436332 else 1) [0..<nv])"
    by (subst for_loop_set_bounds) (auto simp: nv)
  have s6: "for_loop [0..<nc] (set_bounds 0 0) (Dvector (unset 3) nc, Dvector (unset 4) nc) =
      Inr (replicate nc 0, replicate nc 0)"
    by (subst for_loop_set_bounds) (auto simp: Dvector_def intro!: nth_equalityI)
  have le: "nc \<le> nv" by (simp add: nv)
  show ?thesis
    apply (unfold Solve_setup_def Let_def)
    apply (fold nv_def)
    apply (fold nc_def)
    apply (simp only: s1 s2 [OF le] s2 [OF order_refl] s3 s4 s5 s6 and_then_Inr
             fst_conv snd_conv ds as)
    done
qed

section \<open>The seed and the bounds of the decision variables\<close>

text \<open>
  Claim C7. Whatever the fresh vectors hold, the seed that \<open>Solve\<close> passes to the solver
  as starting point has \<open>N * 6 + (N - 1) * 2\<close> entries; the entries at the offsets
  \<open>x_start\<close>, \<open>y_start\<close>, \<open>psi_start\<close>, \<open>v_start\<close>, \<open>cte_start\<close> and \<open>epsi_start\<close> (step \<open>0\<close>
  of the six state channels) are the six components of the state, and every other entry
  is \<open>0\<close>: the loop over \<open>vars\<close> has set it.
\<close>

theorem Solve_seed:
  assumes "0 < N cfg" and "6 \<le> length state"
  shows "\<exists>p. Solve_setup cfg unset state coeffs = Inr p
           \<and> length (xi p) = N cfg * 6 + (N cfg - 1) * 2
           \<and> xi p ! x_start cfg = state ! 0 \<and> xi p ! y_start cfg = state ! 1
           \<and> xi p ! psi_start cfg = state ! 2 \<and> xi p ! v_start cfg = state ! 3
           \<and> xi p ! cte_start cfg = state ! 4 \<and> xi p ! epsi_start cfg = state ! 5
           \<and> (\<forall>i < length (xi p).
                 i \<notin> {x_start cfg, y_start cfg, psi_start cfg, v_start cfg,
                        cte_start cfg, epsi_start cfg} \<longrightarrow> xi p ! i = 0)"
  using assms(1) unfolding Solve_setup_closed [OF assms]
  by (simp add: start_defs)

theorem Solve_seed_witness:
  "\<exists>p. Solve_setup \<lparr>N = 3, dt = 0.1, Lf = 2.67, ref_v = 40\<rparr> stale [1, 2, 3, 4, 5, 6] [0, 0, 0, 0] = Inr p
       \<and> length (xi p) = 22
       \<and> xi p ! 0 = 1 \<and> xi p ! 3 = 2 \<and> xi p ! 6 = 3 \<and> xi p ! 9 = 4 \<and> xi p ! 12 = 5
       \<and> xi p ! 15 = 6 \<and> xi p ! 1 = 0 \<and> xi p ! 21 = 0"
proof -
  from Solve_seed [of "\<lparr>N = 3, dt = 0.1, Lf = 2.67, ref_v = 40\<rparr>" "[1, 2, 3, 4, 5, 6]" stale
      "[0, 0, 0, 0]"]
  obtain p where "Solve_setup \<lparr>N = 3, dt = 0.1, Lf = 2.67, ref_v = 40\<rparr> stale [1, 2, 3, 4, 5, 6] [0, 0, 0, 0] = Inr p"
    and "length (xi p) = 22"
    and "xi p ! 0 = 1 \<and> xi p ! 3 = 2 \<and> xi p ! 6 = 3 \<and> xi p ! 9 = 4 \<and> xi p ! 12 = 5
          \<and> xi p ! 15 = 6"
    and "\<forall>i<22. i \<notin> {0, 3, 6, 9, 12, 15} \<longrightarrow> xi p ! i = 0"
    by (auto simp: start_defs)
  then show ?thesis by (intro exI [of _ p]) simp
qed

text \<open>
  Claim C6. Whatever the fresh vectors hold, the two bound vectors of the decision
  variables have the length of the seed.
  Every entry below \<open>delta_start\<close>, which is where all steps of the six state channels
  lie, is bounded by \<open>-1e19\<close> and \<open>1e19\<close>; every steering entry by \<open>-0.436332\<close> and
  \<open>0.436332\<close>; every acceleration entry by \<open>-1\<close> and \<open>1\<close>; the acceleration entries
  end where the vector ends.
\<close>

theorem Solve_variable_bounds:
  assumes "0 < N cfg" and "6 \<le> length state"
  shows "\<exists>p. Solve_setup cfg unset state coeffs = Inr p
           \<and> length (xl p) = length (xi p) \<and> length (xu p) = length (xi p)
           \<and> (\<forall>i < delta_start cfg. xl p ! i = - (10 ^ 19) \<and> xu p ! i = 10 ^ 19)
           \<and> (\<forall>s \<in> {x_start cfg, y_start cfg, psi_start cfg, v_start cfg,
                      cte_start cfg, epsi_start cfg}. \<forall>t < N cfg. s + t < delta_start cfg)
           \<and> (\<forall>t < N cfg - 1. xl p ! (delta_start cfg + t) = - 0.436332
                               \<and> xu p ! (delta_start cfg + t) = 0.436332)
           \<and> (\<forall>t < N cfg - 1. xl p ! (a_start cfg + t) = - 1 \<and> xu p ! (a_start cfg + t) = 1)
           \<and> a_start cfg + (N cfg - 1) = length (xi p)"
  using assms(1) unfolding Solve_setup_closed [OF assms]
  by (auto simp: start_defs)

theorem Solve_variable_bounds_witness:
  "\<exists>p. Solve_setup \<lparr>N = 3, dt = 0.1, Lf = 2.67, ref_v = 40\<rparr> stale [1, 2, 3, 4, 5, 6] [0, 0, 0, 0] = Inr p
       \<and> length (xl p) = 22 \<and> length (xu p) = 22
       \<and> xl p ! 17 = - (10 ^ 19) \<and> xu p ! 17 = 10 ^ 19
       \<and> xl p ! 19 = - 0.436332 \<and> xu p ! 19 = 0.436332
       \<and> xl p ! 21 = - 1 \<and> xu p ! 21 = 1"
proof -
  from Solve_variable_bounds [of "\<lparr>N = 3, dt = 0.1, Lf = 2.67, ref_v = 40\<rparr>" "[1, 2, 3, 4, 5, 6]"
      stale "[0, 0, 0, 0]"]
  obtain p where "Solve_setup \<lparr>N = 3, dt = 0.1, Lf = 2.67, ref_v = 40\<rparr> stale [1, 2, 3, 4, 5, 6] [0, 0, 0, 0] = Inr p"
    and "length (xl p) = 22" "length (xu p) = 22"
    and s: "\<forall>i<18. xl p ! i = - (10 ^ 19) \<and> xu p ! i = 10 ^ 19"
    and d: "\<forall>t<2. xl p ! (18 + t) = - 0.436332 \<and> xu p ! (18 + t) = 0.436332"
    and a: "\<forall>t<2. xl p ! (20 + t) = - 1 \<and> xu p ! (20 + t) = 1"
    by (auto simp: start_defs)
  have "xl p ! 17 = - (10 ^ 19) \<and> xu p ! 17 = 10 ^ 19"
    and "xl p ! 19 = - 0.436332 \<and> xu p ! 19 = 0.436332"
    and "xl p ! 21 = - 1 \<and> xu p ! 21 = 1"
    using s [rule_format, of 17] d [rule_format, of 1] a [rule_format, of 1] by simp_all
  with \<open>Solve_setup _ _ _ _ = Inr p\<close> \<open>length (xl p) = 22\<close> \<open>length (xu p) = 22\<close>
  show ?thesis by (intro exI [of _ p]) simp
qed

section \<open>The objective\<close>

lemma cost_reference_eq_Inr:
  "cost_reference cfg vars c t = Inr c' \<longleftrightarrow>
     cte_start cfg + t < length vars \<and> epsi_start cfg + t < length vars \<and>
     c' = c + (1000 * (vars ! (cte_start cfg + t)) ^ 2 + 1000 * (vars ! (epsi_start cfg + t)) ^ 2)"
  by (auto simp: cost_reference_def and_then_eq_Inr vget_eq_Inr)

lemma cost_speed_eq_Inr:
  "cost_speed cfg vars c t = Inr c' \<longleftrightarrow>
     v_start cfg + t < length vars \<and>
     c' = c + 10 * (vars ! (v_start cfg + t) - ref_v cfg) ^ 2"
  by (auto simp: cost_speed_def and_then_eq_Inr vget_eq_Inr)

lemma cost_actuators_eq_Inr:
  "cost_actuators cfg vars c t = Inr c' \<longleftrightarrow>
     delta_start cfg + t < length vars \<and> a_start cfg + t < length vars \<and>
     c' = c + (3 * (vars ! (delta_start cfg + t)) ^ 2 + 3 * (vars ! (a_start cfg + t)) ^ 2)"
  by (auto simp: cost_actuators_def and_then_eq_Inr vget_eq_Inr)

lemma cost_actuator_speed_eq_Inr:
  "cost_actuator_speed cfg vars c t = Inr c' \<longleftrightarrow>
     delta_start cfg + t + 1 < length vars \<and> a_start cfg + t + 1 < length vars \<and>
     c' = c + (1000 * (vars ! (delta_start cfg + t + 1) - vars ! (delta_start cfg + t)) ^ 2
               + 1 * (vars ! (a_start cfg + t + 1) - vars ! (a_start cfg + t)) ^ 2)"
  by (auto simp: cost_actuator_speed_def and_then_eq_Inr vget_eq_Inr)

text \<open>A loop whose body adds \<open>g t\<close> to the accumulator computes a sum.\<close>

lemma for_loop_sum:
  assumes "for_loop [a..<b] body c = Inr c'"
    and "\<And>s t s'. body s t = Inr s' \<Longrightarrow> s' = s + g t"
  shows "c' = c + (\<Sum>t = a..<b. g t :: real)"
proof -
  have "for_loop ts body c = Inr c' \<Longrightarrow> c' = c + sum_list (map g ts)" for ts c
  proof (induction ts arbitrary: c)
    case Nil
    then show ?case by simp
  next
    case (Cons t ts)
    then obtain s where "body c t = Inr s" and "for_loop ts body s = Inr c'"
      by (auto simp: and_then_eq_Inr)
    with Cons.IH [of s] assms(2) [of c t s] show ?case by simp
  qed
  from this [OF assms(1)] show ?thesis
    by (simp add: interv_sum_list_conv_sum_set_nat)
qed

lemma for_loop_sum_returns:
  assumes "\<And>s t. t \<in> set ts \<Longrightarrow> \<exists>s'. body s t = (Inr s' :: error + real)"
  shows "\<exists>c'. for_loop ts body c = Inr c'"
  using for_loop_returns [of ts "\<lambda>_. True" body c] assms by auto


section \<open>The constraint rows\<close>

lemma initial_constraints_eq_Inr:
  "initial_constraints cfg vars fg = Inr fg' \<longleftrightarrow>
     epsi_start cfg < length vars \<and> 1 + epsi_start cfg < length fg \<and>
     fg' = fg[1 + x_start cfg := vars ! x_start cfg, 1 + y_start cfg := vars ! y_start cfg,
              1 + psi_start cfg := vars ! psi_start cfg, 1 + v_start cfg := vars ! v_start cfg,
              1 + cte_start cfg := vars ! cte_start cfg,
              1 + epsi_start cfg := vars ! epsi_start cfg]"
  by (auto simp: initial_constraints_def and_then_eq_Inr vget_eq_Inr vset_eq_Inr start_defs)

lemma model_constraints_eq_Inr:
  assumes "1 \<le> t"
  shows "model_constraints cfg coeffs vars fg t = Inr fg' \<longleftrightarrow>
     a_start cfg + t - 1 < length vars \<and> epsi_start cfg + t < length vars \<and>
     3 < length coeffs \<and> 1 + epsi_start cfg + t < length fg \<and>
     fg' = fg[1 + x_start cfg + t := vars ! (x_start cfg + t) - spec_predicted cfg coeffs vars t ! 0,
              1 + y_start cfg + t := vars ! (y_start cfg + t) - spec_predicted cfg coeffs vars t ! 1,
              1 + psi_start cfg + t := vars ! (psi_start cfg + t) - spec_predicted cfg coeffs vars t ! 2,
              1 + v_start cfg + t := vars ! (v_start cfg + t) - spec_predicted cfg coeffs vars t ! 3,
              1 + cte_start cfg + t := vars ! (cte_start cfg + t) - spec_predicted cfg coeffs vars t ! 4,
              1 + epsi_start cfg + t := vars ! (epsi_start cfg + t) - spec_predicted cfg coeffs vars t ! 5]"
  using assms
  by (auto simp: model_constraints_def spec_predicted_def Let_def and_then_eq_Inr vget_eq_Inr
        vset_eq_Inr start_defs power2_eq_square power3_eq_cube algebra_simps)

lemma less_6_cases:
  assumes "k < (6::nat)" and "P 0" and "P 1" and "P 2" and "P 3" and "P 4" and "P 5"
  shows "P k"
proof -
  from assms(1) consider "k = 0" | "k = 1" | "k = 2" | "k = 3" | "k = 4" | "k = 5" by linarith
  then show ?thesis using assms(2-) by cases simp_all
qed

text \<open>One pass of the loop body writes the six rows of step \<open>t\<close> and nothing else.\<close>

lemma model_constraints_step:
  assumes run: "model_constraints cfg coeffs vars g1 t = Inr g2" and t: "1 \<le> t" "t < N cfg"
  shows "length g2 = length g1"
    and "g2 ! 0 = g1 ! 0"
    and "\<And>k t'. k < 6 \<Longrightarrow> t' < N cfg \<Longrightarrow> t' \<noteq> t \<Longrightarrow>
           g2 ! (1 + k * N cfg + t') = g1 ! (1 + k * N cfg + t')"
    and "\<And>k. k < 6 \<Longrightarrow>
           g2 ! (1 + k * N cfg + t) = vars ! (k * N cfg + t) - spec_predicted cfg coeffs vars t ! k"
proof -
  have starts: "x_start cfg = 0" "y_start cfg = N cfg" "psi_start cfg = 2 * N cfg"
    "v_start cfg = 3 * N cfg" "cte_start cfg = 4 * N cfg" "epsi_start cfg = 5 * N cfg"
    by (simp_all add: start_defs)
  from run t(1) have len: "1 + 5 * N cfg + t < length g1"
    and g2: "g2 = g1[1 + 0 * N cfg + t := vars ! (0 * N cfg + t) - spec_predicted cfg coeffs vars t ! 0,
              1 + 1 * N cfg + t := vars ! (1 * N cfg + t) - spec_predicted cfg coeffs vars t ! 1,
              1 + 2 * N cfg + t := vars ! (2 * N cfg + t) - spec_predicted cfg coeffs vars t ! 2,
              1 + 3 * N cfg + t := vars ! (3 * N cfg + t) - spec_predicted cfg coeffs vars t ! 3,
              1 + 4 * N cfg + t := vars ! (4 * N cfg + t) - spec_predicted cfg coeffs vars t ! 4,
              1 + 5 * N cfg + t := vars ! (5 * N cfg + t) - spec_predicted cfg coeffs vars t ! 5]"
    by (simp_all add: model_constraints_eq_Inr starts)
  show "length g2 = length g1" by (simp add: g2)
  show "g2 ! 0 = g1 ! 0" by (simp add: g2)
  show "g2 ! (1 + k * N cfg + t') = g1 ! (1 + k * N cfg + t')"
    if "k < 6" "t' < N cfg" "t' \<noteq> t" for k t'
    using that(1)
  proof (rule less_6_cases)
    show "g2 ! (1 + 0 * N cfg + t') = g1 ! (1 + 0 * N cfg + t')"
      using that(2,3) t by (simp add: g2)
    show "g2 ! (1 + 1 * N cfg + t') = g1 ! (1 + 1 * N cfg + t')"
      using that(2,3) t by (simp add: g2)
    show "g2 ! (1 + 2 * N cfg + t') = g1 ! (1 + 2 * N cfg + t')"
      using that(2,3) t by (simp add: g2)
    show "g2 ! (1 + 3 * N cfg + t') = g1 ! (1 + 3 * N cfg + t')"
      using that(2,3) t by (simp add: g2)
    show "g2 ! (1 + 4 * N cfg + t') = g1 ! (1 + 4 * N cfg + t')"
      using that(2,3) t by (simp add: g2)
    show "g2 ! (1 + 5 * N cfg + t') = g1 ! (1 + 5 * N cfg + t')"
      using that(2,3) t by (simp add: g2)
  qed
  show "g2 ! (1 + k * N cfg + t) = vars ! (k * N cfg + t) - spec_predicted cfg coeffs vars t ! k"
    if "k < 6" for k
    using that
  proof (rule less_6_cases)
    show "g2 ! (1 + 0 * N cfg + t) = vars ! (0 * N cfg + t) - spec_predicted cfg coeffs vars t ! 0"
      using len t by (simp add: g2)
    show "g2 ! (1 + 1 * N cfg + t) = vars ! (1 * N cfg + t) - spec_predicted cfg coeffs vars t ! 1"
      using len t by (simp add: g2)
    show "g2 ! (1 + 2 * N cfg + t) = vars ! (2 * N cfg + t) - spec_predicted cfg coeffs vars t ! 2"
      using len t by (simp add: g2)
    show "g2 ! (1 + 3 * N cfg + t) = vars ! (3 * N cfg + t) - spec_predicted cfg coeffs vars t ! 3"
      using len t by (simp add: g2)
    show "g2 ! (1 + 4 * N cfg + t) = vars ! (4 * N cfg + t) - spec_predicted cfg coeffs vars t ! 4"
      using len t by (simp add: g2)
    show "g2 ! (1 + 5 * N cfg + t) = vars ! (5 * N cfg + t) - spec_predicted cfg coeffs vars t ! 5"
      using len t by (simp add: g2)
  qed
qed

lemma model_constraints_loop:
  assumes run: "for_loop [1..<N cfg] (model_constraints cfg coeffs vars) g0 = Inr g"
  shows "length g = length g0"
    and "g ! 0 = g0 ! 0"
    and "\<And>k. k < 6 \<Longrightarrow> g ! (1 + k * N cfg) = g0 ! (1 + k * N cfg)"
    and "\<And>k t. k < 6 \<Longrightarrow> 1 \<le> t \<Longrightarrow> t < N cfg \<Longrightarrow>
           g ! (1 + k * N cfg + t) = vars ! (k * N cfg + t) - spec_predicted cfg coeffs vars t ! k"
proof -
  define I where "I ds h \<longleftrightarrow>
      length h = length g0 \<and> h ! 0 = g0 ! 0 \<and>
      (\<forall>k<6. \<forall>t'<N cfg. t' \<notin> set ds \<longrightarrow> h ! (1 + k * N cfg + t') = g0 ! (1 + k * N cfg + t')) \<and>
      (\<forall>t\<in>set ds. \<forall>k<6. h ! (1 + k * N cfg + t)
          = vars ! (k * N cfg + t) - spec_predicted cfg coeffs vars t ! k)"
    for ds :: "nat list" and h :: "real list"
  have "I [1..<N cfg] g"
  proof (rule for_loop_invariant [OF run])
    show "I [] g0" by (simp add: I_def)
  next
    fix ds t rest h1 h2
    assume split: "[1..<N cfg] = ds @ t # rest" and inv: "I ds h1"
      and body: "model_constraints cfg coeffs vars h1 t = Inr h2"
    have "t \<in> set [1..<N cfg]" unfolding split by simp
    then have t: "1 \<le> t" "t < N cfg" by simp_all
    have "distinct (ds @ t # rest)" unfolding split [symmetric] by simp
    then have fresh: "t \<notin> set ds" by simp
    note step = model_constraints_step [OF body t]
    show "I (ds @ [t]) h2"
      unfolding I_def
    proof (intro conjI allI impI ballI)
      show "length h2 = length g0" using step(1) inv by (simp add: I_def)
      show "h2 ! 0 = g0 ! 0" using step(2) inv by (simp add: I_def)
    next
      fix k t' :: nat assume "k < 6" "t' < N cfg" "t' \<notin> set (ds @ [t])"
      then show "h2 ! (1 + k * N cfg + t') = g0 ! (1 + k * N cfg + t')"
        using step(3) [of k t'] inv by (simp add: I_def)
    next
      fix u k :: nat assume u: "u \<in> set (ds @ [t])" and k: "k < 6"
      show "h2 ! (1 + k * N cfg + u) = vars ! (k * N cfg + u) - spec_predicted cfg coeffs vars u ! k"
      proof (cases "u = t")
        case True
        then show ?thesis using step(4) [OF k] by simp
      next
        case False
        with u have "u \<in> set ds" by simp
        moreover from this have "u \<in> set [1..<N cfg]" unfolding split by simp
        ultimately show ?thesis using step(3) [OF k, of u] False inv k by (simp add: I_def)
      qed
    qed
  qed
  then have *: "length g = length g0" "g ! 0 = g0 ! 0"
    "\<forall>k<6. \<forall>t'<N cfg. t' \<notin> set [1..<N cfg] \<longrightarrow> g ! (1 + k * N cfg + t') = g0 ! (1 + k * N cfg + t')"
    "\<forall>t\<in>set [1..<N cfg]. \<forall>k<6. g ! (1 + k * N cfg + t)
          = vars ! (k * N cfg + t) - spec_predicted cfg coeffs vars t ! k"
    by (simp_all add: I_def)
  show "length g = length g0" by fact
  show "g ! 0 = g0 ! 0" by fact
  show "g ! (1 + k * N cfg) = g0 ! (1 + k * N cfg)" if "k < 6" for k
  proof (cases "0 < N cfg")
    case True
    with *(3) that show ?thesis by force
  next
    case False
    with run show ?thesis by simp
  qed
  show "g ! (1 + k * N cfg + t) = vars ! (k * N cfg + t) - spec_predicted cfg coeffs vars t ! k"
    if "k < 6" "1 \<le> t" "t < N cfg" for k t
    using *(4) that by simp
qed

section \<open>The evaluator as a whole\<close>

lemma FG_eval_parts:
  assumes "FG_eval cfg coeffs fg vars = Inr fg'"
  obtains c1 c2 c3 c4 f3 where
    "0 < length fg"
    "for_loop [0..<N cfg] (cost_reference cfg vars) 0 = Inr c1"
    "for_loop [1..<N cfg] (cost_speed cfg vars) c1 = Inr c2"
    "for_loop [0..<N cfg - 1] (cost_actuators cfg vars) c2 = Inr c3"
    "for_loop [0..<N cfg - 2] (cost_actuator_speed cfg vars) c3 = Inr c4"
    "initial_constraints cfg vars (fg[0 := c4]) = Inr f3"
    "for_loop [1..<N cfg] (model_constraints cfg coeffs vars) f3 = Inr fg'"
  using assms unfolding FG_eval_def and_then_eq_Inr vset_eq_Inr
  by (elim exE conjE) simp

lemma FG_eval_cost:
  assumes "FG_eval cfg coeffs fg vars = Inr fg'"
  shows "fg' ! 0 =
      (\<Sum>t = 0..<N cfg. 1000 * (vars ! (cte_start cfg + t)) ^ 2
                        + 1000 * (vars ! (epsi_start cfg + t)) ^ 2)
    + (\<Sum>t = 1..<N cfg. 10 * (vars ! (v_start cfg + t) - ref_v cfg) ^ 2)
    + (\<Sum>t = 0..<N cfg - 1. 3 * (vars ! (delta_start cfg + t)) ^ 2
                            + 3 * (vars ! (a_start cfg + t)) ^ 2)
    + (\<Sum>t = 0..<N cfg - 2.
         1000 * (vars ! (delta_start cfg + t + 1) - vars ! (delta_start cfg + t)) ^ 2
         + 1 * (vars ! (a_start cfg + t + 1) - vars ! (a_start cfg + t)) ^ 2)"
proof -
  from assms obtain c1 c2 c3 c4 f3 where len: "0 < length fg"
    and l1: "for_loop [0..<N cfg] (cost_reference cfg vars) 0 = Inr c1"
    and l2: "for_loop [1..<N cfg] (cost_speed cfg vars) c1 = Inr c2"
    and l3: "for_loop [0..<N cfg - 1] (cost_actuators cfg vars) c2 = Inr c3"
    and l4: "for_loop [0..<N cfg - 2] (cost_actuator_speed cfg vars) c3 = Inr c4"
    and ini: "initial_constraints cfg vars (fg[0 := c4]) = Inr f3"
    and rest: "for_loop [1..<N cfg] (model_constraints cfg coeffs vars) f3 = Inr fg'"
    by (rule FG_eval_parts)
  have "fg' ! 0 = f3 ! 0" using model_constraints_loop(2) [OF rest] .
  also have "f3 ! 0 = c4" using ini len by (simp add: initial_constraints_eq_Inr)
  also have "c4 = c3 + (\<Sum>t = 0..<N cfg - 2.
         1000 * (vars ! (delta_start cfg + t + 1) - vars ! (delta_start cfg + t)) ^ 2
         + 1 * (vars ! (a_start cfg + t + 1) - vars ! (a_start cfg + t)) ^ 2)"
    by (rule for_loop_sum [OF l4]) (simp add: cost_actuator_speed_eq_Inr)
  also have "c3 = c2 + (\<Sum>t = 0..<N cfg - 1. 3 * (vars ! (delta_start cfg + t)) ^ 2
                            + 3 * (vars ! (a_start cfg + t)) ^ 2)"
    by (rule for_loop_sum [OF l3]) (simp add: cost_actuators_eq_Inr)
  also have "c2 = c1 + (\<Sum>t = 1..<N cfg. 10 * (vars ! (v_start cfg + t) - ref_v cfg) ^ 2)"
    by (rule for_loop_sum [OF l2]) (simp add: cost_speed_eq_Inr)
  also have "c1 = 0 + (\<Sum>t = 0..<N cfg. 1000 * (vars ! (cte_start cfg + t)) ^ 2
                        + 1000 * (vars ! (epsi_start cfg + t)) ^ 2)"
    by (rule for_loop_sum [OF l1]) (simp add: cost_reference_eq_Inr)
  finally show ?thesis by simp
qed

lemma FG_eval_rows:
  assumes run: "FG_eval cfg coeffs fg vars = Inr fg'" and n: "0 < N cfg"
  shows "length fg' = length fg"
    and "\<And>k. k < 6 \<Longrightarrow> fg' ! (1 + k * N cfg) = vars ! (k * N cfg)"
    and "\<And>k t. k < 6 \<Longrightarrow> 1 \<le> t \<Longrightarrow> t < N cfg \<Longrightarrow>
           fg' ! (1 + k * N cfg + t) = vars ! (k * N cfg + t) - spec_predicted cfg coeffs vars t ! k"
proof -
  from run obtain c1 c2 c3 c4 f3 where len: "0 < length fg"
    and ini: "initial_constraints cfg vars (fg[0 := c4]) = Inr f3"
    and rest: "for_loop [1..<N cfg] (model_constraints cfg coeffs vars) f3 = Inr fg'"
    by (rule FG_eval_parts)
  have starts: "x_start cfg = 0" "y_start cfg = N cfg" "psi_start cfg = 2 * N cfg"
    "v_start cfg = 3 * N cfg" "cte_start cfg = 4 * N cfg" "epsi_start cfg = 5 * N cfg"
    by (simp_all add: start_defs)
  from ini have f3len: "1 + 5 * N cfg < length fg"
    and f3: "f3 = fg[0 := c4, 1 + 0 * N cfg := vars ! (0 * N cfg),
                     1 + 1 * N cfg := vars ! (1 * N cfg), 1 + 2 * N cfg := vars ! (2 * N cfg),
                     1 + 3 * N cfg := vars ! (3 * N cfg), 1 + 4 * N cfg := vars ! (4 * N cfg),
                     1 + 5 * N cfg := vars ! (5 * N cfg)]"
    by (simp_all add: initial_constraints_eq_Inr starts)
  show "length fg' = length fg"
    using model_constraints_loop(1) [OF rest] by (simp add: f3)
  show "fg' ! (1 + k * N cfg) = vars ! (k * N cfg)" if k: "k < 6" for k
  proof -
    have "f3 ! (1 + k * N cfg) = vars ! (k * N cfg)"
      using k
    proof (rule less_6_cases)
      show "f3 ! (1 + 0 * N cfg) = vars ! (0 * N cfg)" using f3len n by (simp add: f3)
      show "f3 ! (1 + 1 * N cfg) = vars ! (1 * N cfg)" using f3len n by (simp add: f3)
      show "f3 ! (1 + 2 * N cfg) = vars ! (2 * N cfg)" using f3len n by (simp add: f3)
      show "f3 ! (1 + 3 * N cfg) = vars ! (3 * N cfg)" using f3len n by (simp add: f3)
      show "f3 ! (1 + 4 * N cfg) = vars ! (4 * N cfg)" using f3len n by (simp add: f3)
      show "f3 ! (1 + 5 * N cfg) = vars ! (5 * N cfg)" using f3len n by (simp add: f3)
    qed
    with model_constraints_loop(3) [OF rest k] show ?thesis by simp
  qed
  show "fg' ! (1 + k * N cfg + t) = vars ! (k * N cfg + t) - spec_predicted cfg coeffs vars t ! k"
    if "k < 6" "1 \<le> t" "t < N cfg" for k t
    using model_constraints_loop(4) [OF rest that] .
qed

lemma FG_eval_returns:
  assumes n: "0 < N cfg" and vars: "N cfg * 6 + (N cfg - 1) * 2 \<le> length vars"
    and coeffs: "4 \<le> length coeffs" and fg: "N cfg * 6 < length fg"
  shows "\<exists>fg'. FG_eval cfg coeffs fg vars = Inr fg'"
proof -
  obtain c1 where l1: "for_loop [0..<N cfg] (cost_reference cfg vars) 0 = Inr c1"
    using for_loop_sum_returns [of "[0..<N cfg]" "cost_reference cfg vars" 0] vars
    by (auto simp: cost_reference_eq_Inr start_defs)
  obtain c2 where l2: "for_loop [1..<N cfg] (cost_speed cfg vars) c1 = Inr c2"
    using for_loop_sum_returns [of "[1..<N cfg]" "cost_speed cfg vars" c1] vars
    by (auto simp: cost_speed_eq_Inr start_defs)
  have "\<exists>c3. for_loop [0..<N cfg - 1] (cost_actuators cfg vars) c2 = Inr c3"
  proof (rule for_loop_sum_returns)
    fix s t assume "t \<in> set [0..<N cfg - 1]"
    then have "delta_start cfg + t < length vars" and "a_start cfg + t < length vars"
      using vars by (simp_all add: start_defs)
    then show "\<exists>s'. cost_actuators cfg vars s t = Inr s'"
      by (simp add: cost_actuators_eq_Inr)
  qed
  then obtain c3 where l3: "for_loop [0..<N cfg - 1] (cost_actuators cfg vars) c2 = Inr c3" ..
  have "\<exists>c4. for_loop [0..<N cfg - 2] (cost_actuator_speed cfg vars) c3 = Inr c4"
  proof (rule for_loop_sum_returns)
    fix s t assume "t \<in> set [0..<N cfg - 2]"
    then have "delta_start cfg + t + 1 < length vars" and "a_start cfg + t + 1 < length vars"
      using vars by (simp_all add: start_defs)
    then show "\<exists>s'. cost_actuator_speed cfg vars s t = Inr s'"
      by (simp add: cost_actuator_speed_eq_Inr)
  qed
  then obtain c4 where l4: "for_loop [0..<N cfg - 2] (cost_actuator_speed cfg vars) c3 = Inr c4" ..
  obtain f3 where ini: "initial_constraints cfg vars (fg[0 := c4]) = Inr f3"
    and f3: "length f3 = length fg"
    using n vars fg by (auto simp: initial_constraints_eq_Inr start_defs)
  have "\<exists>g. for_loop [1..<N cfg] (model_constraints cfg coeffs vars) f3 = Inr g
            \<and> length g = length fg"
  proof (rule for_loop_returns)
    show "length f3 = length fg" by fact
  next
    fix t and h :: "real list" assume "t \<in> set [1..<N cfg]" and "length h = length fg"
    then show "\<exists>h'. model_constraints cfg coeffs vars h t = Inr h' \<and> length h' = length fg"
      using vars coeffs fg by (auto simp: model_constraints_eq_Inr start_defs)
  qed
  then obtain g where "for_loop [1..<N cfg] (model_constraints cfg coeffs vars) f3 = Inr g"
    by blast
  moreover from fg have "fg \<noteq> []" by auto
  ultimately show ?thesis
    using l1 l2 l3 l4 ini by (simp add: FG_eval_def vset_def)
qed

text \<open>
  Claim C5. On a decision vector, a coefficient vector and an \<open>fg\<close> of the sizes that the
  solver hands over, the evaluator returns, and the objective \<open>fg[0]\<close> is the sum of
  \<open>1000 cte\<^sub>t\<^sup>2 + 1000 epsi\<^sub>t\<^sup>2\<close> over \<open>t\<close> in \<open>[0, N)\<close>, of \<open>10 (v\<^sub>t - ref_v)\<^sup>2\<close> over \<open>t\<close> in
  \<open>[1, N)\<close>, of \<open>3 delta\<^sub>t\<^sup>2 + 3 a\<^sub>t\<^sup>2\<close> over \<open>t\<close> in \<open>[0, N-1)\<close>, and of
  \<open>1000 (delta\<^sub>t\<^sub>+\<^sub>1 - delta\<^sub>t)\<^sup>2 + 1 (a\<^sub>t\<^sub>+\<^sub>1 - a\<^sub>t)\<^sup>2\<close> over \<open>t\<close> in \<open>[0, N-2)\<close>.
\<close>

theorem FG_eval_objective:
  assumes "0 < N cfg" and "N cfg * 6 + (N cfg - 1) * 2 \<le> length vars"
    and "4 \<le> length coeffs" and "N cfg * 6 < length fg"
  shows "\<exists>fg'. FG_eval cfg coeffs fg vars = Inr fg' \<and> fg' ! 0 =
      (\<Sum>t = 0..<N cfg. 1000 * (vars ! (cte_start cfg + t)) ^ 2
                        + 1000 * (vars ! (epsi_start cfg + t)) ^ 2)
    + (\<Sum>t = 1..<N cfg. 10 * (vars ! (v_start cfg + t) - ref_v cfg) ^ 2)
    + (\<Sum>t = 0..<N cfg - 1. 3 * (vars ! (delta_start cfg + t)) ^ 2
                            + 3 * (vars ! (a_start cfg + t)) ^ 2)
    + (\<Sum>t = 0..<N cfg - 2.
         1000 * (vars ! (delta_start cfg + t + 1) - vars ! (delta_start cfg + t)) ^ 2
         + 1 * (vars ! (a_start cfg + t + 1) - vars ! (a_start cfg + t)) ^ 2)"
proof -
  from FG_eval_returns [OF assms] obtain fg' where "FG_eval cfg coeffs fg vars = Inr fg'" ..
  with FG_eval_cost [OF this] show ?thesis by blast
qed

theorem FG_eval_objective_witness:
  "\<exists>fg'. FG_eval \<lparr>N = 3, dt = 0.1, Lf = 2.67, ref_v = 40\<rparr> [0, 0, 0, 0] (replicate 19 0)
           [0, 0, 0, 0, 0, 0, 0, 0, 0, 0, 0, 0, 1, 0, 0, 0, 0, 0, 1, 0, 0, 0] = Inr fg'
        \<and> fg' ! 0 = 34003"
proof -
  from FG_eval_objective [of "\<lparr>N = 3, dt = 0.1, Lf = 2.67, ref_v = 40\<rparr>"
      "[0, 0, 0, 0, 0, 0, 0, 0, 0, 0, 0, 0, 1, 0, 0, 0, 0, 0, 1, 0, 0, 0]" "[0, 0, 0, 0]"
      "replicate 19 0"]
  show ?thesis
    by (simp add: start_defs numeral_3_eq_3 numeral_2_eq_2 sum.atLeast_Suc_lessThan)
qed

text \<open>
  Claim C10. Whatever the decision vector and the coefficient vector, an objective that
  the evaluator returns in \<open>fg[0]\<close> is not negative.
\<close>

theorem FG_eval_objective_nonneg:
  assumes "FG_eval cfg coeffs fg vars = Inr fg'"
  shows "0 \<le> fg' ! 0"
  unfolding FG_eval_cost [OF assms]
  by (intro add_nonneg_nonneg sum_nonneg mult_nonneg_nonneg zero_le_power2) simp_all

theorem FG_eval_objective_nonneg_witness:
  "\<exists>fg'. FG_eval \<lparr>N = 3, dt = 0.1, Lf = 2.67, ref_v = 40\<rparr> [0, 0, 0, 0] (replicate 19 0)
           (replicate 22 0) = Inr fg' \<and> 0 \<le> fg' ! 0"
proof -
  have "\<exists>fg'. FG_eval \<lparr>N = 3, dt = 0.1, Lf = 2.67, ref_v = 40\<rparr> [0, 0, 0, 0] (replicate 19 0)
           (replicate 22 0) = Inr fg'"
    by (rule FG_eval_returns) simp_all
  then obtain fg' where r: "FG_eval \<lparr>N = 3, dt = 0.1, Lf = 2.67, ref_v = 40\<rparr> [0, 0, 0, 0]
      (replicate 19 0) (replicate 22 0) = Inr fg'" ..
  from r FG_eval_objective_nonneg [OF r] show ?thesis by blast
qed

text \<open>
  Claim C4. On inputs of the sizes that the solver hands over and with \<open>Lf \<noteq> 0\<close>, the
  evaluator returns, and for every step \<open>t\<close> in \<open>[1, N)\<close> the row of each of the six state
  channels is the value at step \<open>t\<close> minus the value predicted from step \<open>t - 1\<close> by the
  formulas of the claim.
\<close>

theorem FG_eval_residuals:
  assumes "0 < N cfg" and "N cfg * 6 + (N cfg - 1) * 2 \<le> length vars"
    and "4 \<le> length coeffs" and "N cfg * 6 < length fg" and "Lf cfg \<noteq> 0"
  shows "\<exists>fg'. FG_eval cfg coeffs fg vars = Inr fg' \<and>
    (\<forall>t. 1 \<le> t \<and> t < N cfg \<longrightarrow>
      (let x0 = vars ! (x_start cfg + t - 1); x1 = vars ! (x_start cfg + t);
           y0 = vars ! (y_start cfg + t - 1); y1 = vars ! (y_start cfg + t);
           psi0 = vars ! (psi_start cfg + t - 1); psi1 = vars ! (psi_start cfg + t);
           v0 = vars ! (v_start cfg + t - 1); v1 = vars ! (v_start cfg + t);
           cte1 = vars ! (cte_start cfg + t);
           epsi0 = vars ! (epsi_start cfg + t - 1); epsi1 = vars ! (epsi_start cfg + t);
           delta0 = vars ! (delta_start cfg + t - 1);
           a0 = vars ! (a_start cfg + t - 1);
           f0 = coeffs ! 0 + coeffs ! 1 * x0 + coeffs ! 2 * x0 ^ 2 + coeffs ! 3 * x0 ^ 3;
           psides0 = arctan (3 * coeffs ! 3 * x0 ^ 2 + 2 * coeffs ! 2 * x0 + coeffs ! 1)
       in fg' ! (1 + x_start cfg + t) = x1 - (x0 + v0 * cos psi0 * dt cfg)
        \<and> fg' ! (1 + y_start cfg + t) = y1 - (y0 + v0 * sin psi0 * dt cfg)
        \<and> fg' ! (1 + psi_start cfg + t) = psi1 - (psi0 + (v0 / Lf cfg) * delta0 * dt cfg)
        \<and> fg' ! (1 + v_start cfg + t) = v1 - (v0 + a0 * dt cfg)
        \<and> fg' ! (1 + cte_start cfg + t) = cte1 - ((f0 - y0) + v0 * sin epsi0 * dt cfg)
        \<and> fg' ! (1 + epsi_start cfg + t)
            = epsi1 - ((psi0 - psides0) + v0 * delta0 / Lf cfg * dt cfg)))"
proof -
  from FG_eval_returns [OF assms(1-4)] obtain fg' where
    run: "FG_eval cfg coeffs fg vars = Inr fg'" ..
  have starts: "x_start cfg = 0 * N cfg" "y_start cfg = 1 * N cfg" "psi_start cfg = 2 * N cfg"
    "v_start cfg = 3 * N cfg" "cte_start cfg = 4 * N cfg" "epsi_start cfg = 5 * N cfg"
    by (simp_all add: start_defs)
  note rows = FG_eval_rows(3) [OF run assms(1)]
  have "fg' ! (1 + x_start cfg + t) = vars ! (x_start cfg + t) - spec_predicted cfg coeffs vars t ! 0"
    "fg' ! (1 + y_start cfg + t) = vars ! (y_start cfg + t) - spec_predicted cfg coeffs vars t ! 1"
    "fg' ! (1 + psi_start cfg + t) = vars ! (psi_start cfg + t) - spec_predicted cfg coeffs vars t ! 2"
    "fg' ! (1 + v_start cfg + t) = vars ! (v_start cfg + t) - spec_predicted cfg coeffs vars t ! 3"
    "fg' ! (1 + cte_start cfg + t) = vars ! (cte_start cfg + t) - spec_predicted cfg coeffs vars t ! 4"
    "fg' ! (1 + epsi_start cfg + t) = vars ! (epsi_start cfg + t) - spec_predicted cfg coeffs vars t ! 5"
    if "1 \<le> t" "t < N cfg" for t
    unfolding starts
    using rows [of 0 t] rows [of 1 t] rows [of 2 t] rows [of 3 t] rows [of 4 t] rows [of 5 t] that
    by simp_all
  then have "\<forall>t. 1 \<le> t \<and> t < N cfg \<longrightarrow>
      (let x0 = vars ! (x_start cfg + t - 1); x1 = vars ! (x_start cfg + t);
           y0 = vars ! (y_start cfg + t - 1); y1 = vars ! (y_start cfg + t);
           psi0 = vars ! (psi_start cfg + t - 1); psi1 = vars ! (psi_start cfg + t);
           v0 = vars ! (v_start cfg + t - 1); v1 = vars ! (v_start cfg + t);
           cte1 = vars ! (cte_start cfg + t);
           epsi0 = vars ! (epsi_start cfg + t - 1); epsi1 = vars ! (epsi_start cfg + t);
           delta0 = vars ! (delta_start cfg + t - 1);
           a0 = vars ! (a_start cfg + t - 1);
           f0 = coeffs ! 0 + coeffs ! 1 * x0 + coeffs ! 2 * x0 ^ 2 + coeffs ! 3 * x0 ^ 3;
           psides0 = arctan (3 * coeffs ! 3 * x0 ^ 2 + 2 * coeffs ! 2 * x0 + coeffs ! 1)
       in fg' ! (1 + x_start cfg + t) = x1 - (x0 + v0 * cos psi0 * dt cfg)
        \<and> fg' ! (1 + y_start cfg + t) = y1 - (y0 + v0 * sin psi0 * dt cfg)
        \<and> fg' ! (1 + psi_start cfg + t) = psi1 - (psi0 + (v0 / Lf cfg) * delta0 * dt cfg)
        \<and> fg' ! (1 + v_start cfg + t) = v1 - (v0 + a0 * dt cfg)
        \<and> fg' ! (1 + cte_start cfg + t) = cte1 - ((f0 - y0) + v0 * sin epsi0 * dt cfg)
        \<and> fg' ! (1 + epsi_start cfg + t)
            = epsi1 - ((psi0 - psides0) + v0 * delta0 / Lf cfg * dt cfg))"
    by (simp add: spec_predicted_def Let_def)
  with run show ?thesis by blast
qed

theorem FG_eval_residuals_witness:
  "\<exists>fg'. FG_eval \<lparr>N = 3, dt = 0.1, Lf = 2.67, ref_v = 40\<rparr> [1, 0, 0, 0] (replicate 19 0)
           [0, 0, 0, 0, 0, 0, 0, 0, 0, 10, 0, 0, 0, 0, 0, 0, 0, 0, 0.1, 0, 1, 0] = Inr fg'
        \<and> fg' ! (1 + 0 + 1) = - 1 \<and> fg' ! (1 + 3 + 1) = 0 \<and> fg' ! (1 + 6 + 1) = - (10 / 267)
        \<and> fg' ! (1 + 9 + 1) = - 10.1 \<and> fg' ! (1 + 12 + 1) = - 1
        \<and> fg' ! (1 + 15 + 1) = - (10 / 267)"
  using FG_eval_residuals [of "\<lparr>N = 3, dt = 0.1, Lf = 2.67, ref_v = 40\<rparr>"
      "[0, 0, 0, 0, 0, 0, 0, 0, 0, 10, 0, 0, 0, 0, 0, 0, 0, 0, 0.1, 0, 1, 0]" "[1, 0, 0, 0]"
      "replicate 19 0"]
  apply (simp only: Let_def)
  apply (elim meta_impE exE conjE)
       apply simp
      apply simp
     apply simp
    apply simp
   apply simp
  apply (drule spec [where x = "1::nat"])
  apply (rule exI)
  apply (rule conjI, assumption)
  apply (simp add: start_defs)
  done

section \<open>The solver call and the result\<close>

lemma Solve_copy_loop:
  "for_loop [0..<length xs] (\<lambda>ret i. and_then (vget xs i) (\<lambda>c. Inr (ret @ [c]))) [] = Inr xs"
proof -
  have "n \<le> length xs \<Longrightarrow>
          for_loop [0..<n] (\<lambda>ret i. and_then (vget xs i) (\<lambda>c. Inr (ret @ [c]))) []
            = Inr (take n xs)" for n
  proof (induction n)
    case 0
    then show ?case by simp
  next
    case (Suc n)
    then show ?case
      unfolding upt_Suc_append [OF le0] for_loop_snoc
      by (simp add: vget_def take_Suc_conv_app_nth)
  qed
  from this [of "length xs"] show ?thesis by simp
qed

lemma Solve_closed:
  "Solve cfg unset solver state coeffs w =
     and_then (Solve_setup cfg unset state coeffs) (\<lambda>p.
     and_then (solver p w) (\<lambda>r.
       Inr (x (fst r),
            (snd r)\<lparr>cout := cout (snd r) @ [Str ''Cost '', Dbl (obj_value (fst r)), Endl]\<rparr>)))"
proof (cases "Solve_setup cfg unset state coeffs")
  case (Inl e)
  then show ?thesis by (simp add: Solve_def)
next
  case p: (Inr p)
  show ?thesis
  proof (cases "solver p w")
    case (Inl e)
    with p show ?thesis by (simp add: Solve_def)
  next
    case (Inr r)
    obtain sol w1 where r: "r = (sol, w1)" by (cases r)
    from p Inr show ?thesis
      unfolding r by (simp add: Solve_def Let_def Solve_copy_loop)
  qed
qed

lemma FG_eval_short_coeffs:
  assumes "length coeffs < 4" and "2 \<le> N cfg"
  shows "FG_eval cfg coeffs fg vars = Inl IndexOutOfRange"
proof (cases "FG_eval cfg coeffs fg vars")
  case (Inl e)
  then show ?thesis by (cases e) simp
next
  case (Inr fg')
  then obtain c1 c2 c3 c4 f3 where
    rest: "for_loop [1..<N cfg] (model_constraints cfg coeffs vars) f3 = Inr fg'"
    by (rule FG_eval_parts)
  from assms(2) have "[1..<N cfg] = 1 # [2..<N cfg]"
    by (simp add: upt_conv_Cons numeral_2_eq_2)
  with rest obtain f4 where "model_constraints cfg coeffs vars f3 1 = Inr f4"
    by (auto simp: and_then_eq_Inr)
  then have "3 < length coeffs" by (simp add: model_constraints_eq_Inr)
  with assms(1) show ?thesis by simp
qed

lemma Solve_probing:
  assumes "0 < N cfg" and "6 \<le> length state" and "4 \<le> length coeffs"
  shows "\<exists>p fg'. Solve_setup cfg unset state coeffs = Inr p
     \<and> FG_eval cfg coeffs (replicate (1 + N cfg * 6) 1) (xi p) = Inr fg'
     \<and> Solve cfg unset (probing_solver st) state coeffs w
         = Inr (xi p, w\<lparr>cout := cout w @ [Str ''Cost '', Dbl (fg' ! 0), Endl]\<rparr>)"
proof -
  obtain p where su: "Solve_setup cfg unset state coeffs = Inr p"
    and len: "length (xi p) = N cfg * 6 + (N cfg - 1) * 2" "length (gl p) = N cfg * 6"
    and ev: "fg_eval p = FG_eval cfg coeffs"
    using Solve_setup_closed [OF assms(1,2), of unset coeffs] by simp
  have "\<exists>fg'. FG_eval cfg coeffs (replicate (1 + N cfg * 6) 1) (xi p) = Inr fg'"
    using assms(1,3) len by (intro FG_eval_returns) simp_all
  then obtain fg' where run: "FG_eval cfg coeffs (replicate (1 + N cfg * 6) 1) (xi p) = Inr fg'" ..
  have "probing_solver st p w = Inr (\<lparr>status = st, x = xi p, obj_value = fg' ! 0\<rparr>, w)"
    using run by (simp add: probing_solver_def ev len)
  then have "Solve cfg unset (probing_solver st) state coeffs w
         = Inr (xi p, w\<lparr>cout := cout w @ [Str ''Cost '', Dbl (fg' ! 0), Endl]\<rparr>)"
    by (simp add: Solve_closed su)
  with su run show ?thesis by blast
qed

text \<open>
  Claim C1 (the source does not do what the claim says). A solver result with status
  \<open>maxiter_exceeded\<close> and one with status \<open>success\<close> lead to the same result of \<open>Solve\<close>:
  the primal vector and the printed line, with nothing that tells the two apart.
\<close>

theorem Solve_status_not_reported:
  "Solve \<lparr>N = 3, dt = 0.1, Lf = 2.67, ref_v = 40\<rparr> stale (halting_solver maxiter_exceeded 7)
       [1, 2, 3, 4, 5, 6] [0, 0, 0, 0] \<lparr>cout = [], members = ()\<rparr>
     = Inr ([1, 0, 0, 2, 0, 0, 3, 0, 0, 4, 0, 0, 5, 0, 0, 6, 0, 0, 0, 0, 0, 0],
            \<lparr>cout = [Str ''Cost '', Dbl 7, Endl], members = ()\<rparr>)
   \<and> Solve \<lparr>N = 3, dt = 0.1, Lf = 2.67, ref_v = 40\<rparr> stale (halting_solver success 7)
       [1, 2, 3, 4, 5, 6] [0, 0, 0, 0] \<lparr>cout = [], members = ()\<rparr>
     = Inr ([1, 0, 0, 2, 0, 0, 3, 0, 0, 4, 0, 0, 5, 0, 0, 6, 0, 0, 0, 0, 0, 0],
            \<lparr>cout = [Str ''Cost '', Dbl 7, Endl], members = ()\<rparr>)"
  by (simp add: Solve_closed Solve_setup_closed halting_solver_def start_defs eval_nat_numeral)

text \<open>
  Claim C2, as stated, fails: with \<open>Lf = 0\<close>, with \<open>N = 2\<close> and with a coefficient list
  of five entries, \<open>Solve\<close> calls the solver and returns its primal vector as for any other
  input. In the first example the solver stops at once; in the other two it evaluates the
  objective and the constraints at the starting point and reports the objective it found
  there.
\<close>

theorem Solve_ill_formed_counterexample:
  "Solve \<lparr>N = 3, dt = 0.1, Lf = 0, ref_v = 40\<rparr> stale (halting_solver success 7)
       [1, 2, 3, 4, 5, 6] [0, 0, 0, 0] \<lparr>cout = [], members = ()\<rparr>
     = Inr ([1, 0, 0, 2, 0, 0, 3, 0, 0, 4, 0, 0, 5, 0, 0, 6, 0, 0, 0, 0, 0, 0],
            \<lparr>cout = [Str ''Cost '', Dbl 7, Endl], members = ()\<rparr>)
   \<and> Solve \<lparr>N = 2, dt = 0.1, Lf = 2.67, ref_v = 40\<rparr> stale (probing_solver success)
       [1, 2, 3, 4, 5, 6] [0, 0, 0, 0] \<lparr>cout = [], members = ()\<rparr>
     = Inr ([1, 0, 2, 0, 3, 0, 4, 0, 5, 0, 6, 0, 0, 0],
            \<lparr>cout = [Str ''Cost '', Dbl 77000, Endl], members = ()\<rparr>)
   \<and> Solve \<lparr>N = 3, dt = 0.1, Lf = 2.67, ref_v = 40\<rparr> stale (probing_solver success)
       [1, 2, 3, 4, 5, 6] [0, 0, 0, 0, 0] \<lparr>cout = [], members = ()\<rparr>
     = Inr ([1, 0, 0, 2, 0, 0, 3, 0, 0, 4, 0, 0, 5, 0, 0, 6, 0, 0, 0, 0, 0, 0],
            \<lparr>cout = [Str ''Cost '', Dbl 93000, Endl], members = ()\<rparr>)"
proof -
  let ?W = "\<lparr>cout = [], members = ()\<rparr>"
  let ?S = "[1, 2, 3, 4, 5, 6] :: real list"
  have three: "Solve \<lparr>N = 3, dt = 0.1, Lf = lf, ref_v = 40\<rparr> stale (probing_solver success)
       ?S coeffs ?W
     = Inr ([1, 0, 0, 2, 0, 0, 3, 0, 0, 4, 0, 0, 5, 0, 0, 6, 0, 0, 0, 0, 0, 0],
            \<lparr>cout = [Str ''Cost '', Dbl 93000, Endl], members = ()\<rparr>)"
    if "4 \<le> length coeffs" for lf coeffs
  proof -
    let ?C = "\<lparr>N = 3, dt = 0.1, Lf = lf, ref_v = 40\<rparr>"
    from Solve_probing [of ?C ?S coeffs stale success ?W] that
    obtain p fg' where su: "Solve_setup ?C stale ?S coeffs = Inr p"
      and run: "FG_eval ?C coeffs (replicate (1 + N ?C * 6) 1) (xi p) = Inr fg'"
      and so: "Solve ?C stale (probing_solver success) ?S coeffs ?W
         = Inr (xi p, ?W\<lparr>cout := cout ?W @ [Str ''Cost '', Dbl (fg' ! 0), Endl]\<rparr>)"
      by auto
    from su have seed: "xi p = [1, 0, 0, 2, 0, 0, 3, 0, 0, 4, 0, 0, 5, 0, 0, 6, 0, 0, 0, 0, 0, 0]"
      by (auto simp: Solve_setup_closed start_defs eval_nat_numeral)
    have "fg' ! 0 = 93000"
      unfolding FG_eval_cost [OF run] seed
      by (simp add: start_defs numeral_3_eq_3 numeral_2_eq_2 sum.atLeast_Suc_lessThan)
    with so seed show ?thesis by simp
  qed
  have two: "Solve \<lparr>N = 2, dt = 0.1, Lf = 2.67, ref_v = 40\<rparr> stale (probing_solver success)
       ?S [0, 0, 0, 0] ?W
     = Inr ([1, 0, 2, 0, 3, 0, 4, 0, 5, 0, 6, 0, 0, 0],
            \<lparr>cout = [Str ''Cost '', Dbl 77000, Endl], members = ()\<rparr>)"
  proof -
    let ?C = "\<lparr>N = 2, dt = 0.1, Lf = 2.67, ref_v = 40\<rparr>"
    from Solve_probing [of ?C ?S "[0, 0, 0, 0]" stale success ?W]
    obtain p fg' where su: "Solve_setup ?C stale ?S [0, 0, 0, 0] = Inr p"
      and run: "FG_eval ?C [0, 0, 0, 0] (replicate (1 + N ?C * 6) 1) (xi p) = Inr fg'"
      and so: "Solve ?C stale (probing_solver success) ?S [0, 0, 0, 0] ?W
         = Inr (xi p, ?W\<lparr>cout := cout ?W @ [Str ''Cost '', Dbl (fg' ! 0), Endl]\<rparr>)"
      by auto
    from su have seed: "xi p = [1, 0, 2, 0, 3, 0, 4, 0, 5, 0, 6, 0, 0, 0]"
      by (auto simp: Solve_setup_closed start_defs eval_nat_numeral)
    have "fg' ! 0 = 77000"
      unfolding FG_eval_cost [OF run] seed
      by (simp add: start_defs numeral_2_eq_2 sum.atLeast_Suc_lessThan)
    with so seed show ?thesis by simp
  qed
  have zero: "Solve \<lparr>N = 3, dt = 0.1, Lf = 0, ref_v = 40\<rparr> stale (halting_solver success 7)
       ?S [0, 0, 0, 0] ?W
     = Inr ([1, 0, 0, 2, 0, 0, 3, 0, 0, 4, 0, 0, 5, 0, 0, 6, 0, 0, 0, 0, 0, 0],
            \<lparr>cout = [Str ''Cost '', Dbl 7, Endl], members = ()\<rparr>)"
    by (simp add: Solve_closed Solve_setup_closed halting_solver_def start_defs eval_nat_numeral)
  from zero two three [where coeffs = "[0, 0, 0, 0, 0]" and lf = "2.67"]
  show ?thesis by simp
qed

text \<open>
  Claim C2, amended. \<open>Solve\<close> checks neither the configuration nor the coefficient list
  before the solve attempt: for every \<open>N \<ge> 1\<close> (also below \<open>3\<close>), every \<open>Lf\<close> (also \<open>0\<close>)
  and every coefficient list, with a state of at least six entries, the problem is set
  up and handed to the solver, and the outcome of \<open>Solve\<close> is the outcome of that call:
  the solver's primal vector as a normal result when the solver returns one, the
  solver's failure when it does not. With four coefficients or more the evaluator that
  the solver is handed returns at every point of the problem's size, whatever \<open>N\<close> and
  \<open>Lf\<close>. With fewer than four coefficients and \<open>N \<ge> 2\<close> it stops with the index error at
  every point: such a list fails inside the solve attempt, as soon as the solver
  evaluates, and not before it.
\<close>

theorem Solve_no_validation:
  assumes "0 < N cfg" and "6 \<le> length state"
  shows "\<exists>p. Solve_setup cfg unset state coeffs = Inr p
     \<and> Solve cfg unset solver state coeffs w =
         (case solver p w of
            Inl e \<Rightarrow> Inl e
          | Inr r \<Rightarrow> Inr (x (fst r),
              (snd r)\<lparr>cout := cout (snd r) @ [Str ''Cost '', Dbl (obj_value (fst r)), Endl]\<rparr>))
     \<and> (4 \<le> length coeffs \<longrightarrow>
          (\<forall>fg pt. N cfg * 6 < length fg \<and> N cfg * 6 + (N cfg - 1) * 2 \<le> length pt
             \<longrightarrow> (\<exists>fg'. fg_eval p fg pt = Inr fg')))
     \<and> (length coeffs < 4 \<and> 2 \<le> N cfg \<longrightarrow>
          (\<forall>fg pt. fg_eval p fg pt = Inl IndexOutOfRange))"
proof -
  obtain p where su: "Solve_setup cfg unset state coeffs = Inr p"
    and ev: "fg_eval p = FG_eval cfg coeffs"
    using Solve_setup_closed [OF assms, of unset coeffs] by simp
  have "Solve cfg unset solver state coeffs w =
         (case solver p w of
            Inl e \<Rightarrow> Inl e
          | Inr r \<Rightarrow> Inr (x (fst r),
              (snd r)\<lparr>cout := cout (snd r) @ [Str ''Cost '', Dbl (obj_value (fst r)), Endl]\<rparr>))"
    by (simp add: Solve_closed su and_then_def)
  moreover have "\<exists>fg'. fg_eval p fg pt = Inr fg'"
    if "4 \<le> length coeffs" "N cfg * 6 < length fg" "N cfg * 6 + (N cfg - 1) * 2 \<le> length pt"
    for fg pt
    unfolding ev using assms(1) that(3,1,2) by (rule FG_eval_returns)
  moreover have "fg_eval p fg pt = Inl IndexOutOfRange"
    if "length coeffs < 4" "2 \<le> N cfg" for fg pt
    unfolding ev using that by (rule FG_eval_short_coeffs)
  ultimately show ?thesis using su by blast
qed

theorem Solve_no_validation_witness:
  "(\<exists>p. Solve_setup \<lparr>N = 2, dt = 0.1, Lf = 0, ref_v = 40\<rparr> stale [1, 2, 3, 4, 5, 6] [0, 0, 0, 0, 0]
           = Inr p
       \<and> Solve \<lparr>N = 2, dt = 0.1, Lf = 0, ref_v = 40\<rparr> stale (halting_solver success 7)
           [1, 2, 3, 4, 5, 6] [0, 0, 0, 0, 0] \<lparr>cout = [], members = ()\<rparr>
         = Inr (xi p, \<lparr>cout = [Str ''Cost '', Dbl 7, Endl], members = ()\<rparr>)
       \<and> (\<forall>fg pt. 12 < length fg \<and> 14 \<le> length pt \<longrightarrow> (\<exists>fg'. fg_eval p fg pt = Inr fg')))
   \<and> (\<exists>p. Solve_setup \<lparr>N = 2, dt = 0.1, Lf = 0, ref_v = 40\<rparr> stale [1, 2, 3, 4, 5, 6] [0, 0, 0]
           = Inr p
       \<and> Solve \<lparr>N = 2, dt = 0.1, Lf = 0, ref_v = 40\<rparr> stale (probing_solver success)
           [1, 2, 3, 4, 5, 6] [0, 0, 0] \<lparr>cout = [], members = ()\<rparr>
         = Inl IndexOutOfRange
       \<and> (\<forall>fg pt. fg_eval p fg pt = Inl IndexOutOfRange))"
proof (rule conjI)
  let ?C = "\<lparr>N = 2, dt = 0.1, Lf = 0, ref_v = 40\<rparr>"
  let ?W = "\<lparr>cout = [], members = ()\<rparr>"
  from Solve_no_validation [of ?C "[1, 2, 3, 4, 5, 6]" stale "[0, 0, 0, 0, 0]"
      "halting_solver success 7" ?W]
  show "\<exists>p. Solve_setup ?C stale [1, 2, 3, 4, 5, 6] [0, 0, 0, 0, 0] = Inr p
       \<and> Solve ?C stale (halting_solver success 7) [1, 2, 3, 4, 5, 6] [0, 0, 0, 0, 0] ?W
         = Inr (xi p, \<lparr>cout = [Str ''Cost '', Dbl 7, Endl], members = ()\<rparr>)
       \<and> (\<forall>fg pt. 12 < length fg \<and> 14 \<le> length pt \<longrightarrow> (\<exists>fg'. fg_eval p fg pt = Inr fg'))"
    by (simp add: halting_solver_def)
  from Solve_no_validation [of ?C "[1, 2, 3, 4, 5, 6]" stale "[0, 0, 0]"
      "probing_solver success" ?W]
  show "\<exists>p. Solve_setup ?C stale [1, 2, 3, 4, 5, 6] [0, 0, 0] = Inr p
       \<and> Solve ?C stale (probing_solver success) [1, 2, 3, 4, 5, 6] [0, 0, 0] ?W
         = Inl IndexOutOfRange
       \<and> (\<forall>fg pt. fg_eval p fg pt = Inl IndexOutOfRange)"
    by (auto simp: probing_solver_def)
qed

text \<open>
  Claim C9, as stated, fails: a call that returns has written a line to standard output.
\<close>

theorem Solve_output_counterexample:
  "map_sum id (cout \<circ> snd)
     (Solve \<lparr>N = 3, dt = 0.1, Lf = 2.67, ref_v = 40\<rparr> stale (halting_solver success 7)
        [1, 2, 3, 4, 5, 6] [0, 0, 0, 0] \<lparr>cout = [], members = ()\<rparr>)
     = Inr [Str ''Cost '', Dbl 7, Endl]"
  by (simp add: Solve_closed Solve_setup_closed halting_solver_def)

text \<open>
  Claim C9, amended. \<open>Solve\<close> keeps no state of its own between calls. A call that
  returns leaves the program state as the solver call left it, but for standard output,
  to which it has appended one line: \<open>Cost\<close>, followed by the objective value that the
  solver reported. The vector it returns is the solver's primal vector; and when the
  answer of the solver does not depend on the program state, the vector that \<open>Solve\<close>
  returns does not either, so that no earlier call has a bearing on it.
\<close>

theorem Solve_frame:
  "(\<forall>ret w'. Solve cfg unset solver state coeffs w = Inr (ret, w') \<longrightarrow>
      (\<exists>p sol w1. Solve_setup cfg unset state coeffs = Inr p \<and> solver p w = Inr (sol, w1)
         \<and> ret = x sol
         \<and> w' = w1\<lparr>cout := cout w1 @ [Str ''Cost '', Dbl (obj_value sol), Endl]\<rparr>))
   \<and> ((\<forall>p v. map_sum id fst (solver p v) = map_sum id fst (solver p w)) \<longrightarrow>
      (\<forall>v. map_sum id fst (Solve cfg unset solver state coeffs v)
             = map_sum id fst (Solve cfg unset solver state coeffs w)))"
proof (intro conjI allI impI)
  fix ret w'
  assume "Solve cfg unset solver state coeffs w = Inr (ret, w')"
  then show "\<exists>p sol w1. Solve_setup cfg unset state coeffs = Inr p \<and> solver p w = Inr (sol, w1)
         \<and> ret = x sol
         \<and> w' = w1\<lparr>cout := cout w1 @ [Str ''Cost '', Dbl (obj_value sol), Endl]\<rparr>"
    unfolding Solve_closed by (auto simp: and_then_eq_Inr)
next
  fix v
  assume same: "\<forall>p v. map_sum id fst (solver p v) = map_sum id fst (solver p w)"
  show "map_sum id fst (Solve cfg unset solver state coeffs v)
          = map_sum id fst (Solve cfg unset solver state coeffs w)"
  proof (cases "Solve_setup cfg unset state coeffs")
    case (Inl e)
    then show ?thesis by (simp add: Solve_closed)
  next
    case (Inr p)
    from same have "map_sum id fst (solver p v) = map_sum id fst (solver p w)" by blast
    then show ?thesis
      unfolding Solve_closed Inr
      by (cases "solver p v"; cases "solver p w") auto
  qed
qed

theorem Solve_frame_witness:
  "(\<exists>p sol w1. Solve_setup \<lparr>N = 3, dt = 0.1, Lf = 2.67, ref_v = 40\<rparr> stale [1, 2, 3, 4, 5, 6]
                 [0, 0, 0, 0] = Inr p
       \<and> halting_solver success 7 p \<lparr>cout = [Endl], members = True\<rparr> = Inr (sol, w1)
       \<and> [1, 0, 0, 2, 0, 0, 3, 0, 0, 4, 0, 0, 5, 0, 0, 6, 0, 0, 0, 0, 0, 0] = x sol
       \<and> \<lparr>cout = [Endl, Str ''Cost '', Dbl 7, Endl], members = True\<rparr>
           = w1\<lparr>cout := cout w1 @ [Str ''Cost '', Dbl (obj_value sol), Endl]\<rparr>)
   \<and> (\<forall>v :: bool world. map_sum id fst
             (Solve \<lparr>N = 3, dt = 0.1, Lf = 2.67, ref_v = 40\<rparr> stale (halting_solver success 7)
                [1, 2, 3, 4, 5, 6] [0, 0, 0, 0] v)
           = map_sum id fst
             (Solve \<lparr>N = 3, dt = 0.1, Lf = 2.67, ref_v = 40\<rparr> stale (halting_solver success 7)
                [1, 2, 3, 4, 5, 6] [0, 0, 0, 0] \<lparr>cout = [Endl], members = True\<rparr>))"
proof -
  let ?C = "\<lparr>N = 3, dt = 0.1, Lf = 2.67, ref_v = 40\<rparr>"
  let ?W = "\<lparr>cout = [Endl], members = True\<rparr>"
  note frame = Solve_frame [of ?C stale "halting_solver success 7" "[1, 2, 3, 4, 5, 6]"
      "[0, 0, 0, 0]" ?W]
  have run: "Solve ?C stale (halting_solver success 7) [1, 2, 3, 4, 5, 6] [0, 0, 0, 0] ?W
     = Inr ([1, 0, 0, 2, 0, 0, 3, 0, 0, 4, 0, 0, 5, 0, 0, 6, 0, 0, 0, 0, 0, 0],
            \<lparr>cout = [Endl, Str ''Cost '', Dbl 7, Endl], members = True\<rparr>)"
    by (simp add: Solve_closed Solve_setup_closed halting_solver_def start_defs eval_nat_numeral)
  have blind: "\<forall>p v. map_sum id fst (halting_solver success 7 p v)
                 = map_sum id fst (halting_solver success 7 p ?W)"
    by (simp add: halting_solver_def)
  note first = frame [THEN conjunct1, rule_format, OF run]
  note second = frame [THEN conjunct2, THEN mp, OF blind]
  show ?thesis
  proof (rule conjI)
    show "\<exists>p sol w1. Solve_setup ?C stale [1, 2, 3, 4, 5, 6] [0, 0, 0, 0] = Inr p
       \<and> halting_solver success 7 p ?W = Inr (sol, w1)
       \<and> [1, 0, 0, 2, 0, 0, 3, 0, 0, 4, 0, 0, 5, 0, 0, 6, 0, 0, 0, 0, 0, 0] = x sol
       \<and> \<lparr>cout = [Endl, Str ''Cost '', Dbl 7, Endl], members = True\<rparr>
           = w1\<lparr>cout := cout w1 @ [Str ''Cost '', Dbl (obj_value sol), Endl]\<rparr>"
      by (rule first)
    show "\<forall>v :: bool world. map_sum id fst
             (Solve ?C stale (halting_solver success 7) [1, 2, 3, 4, 5, 6] [0, 0, 0, 0] v)
           = map_sum id fst
             (Solve ?C stale (halting_solver success 7) [1, 2, 3, 4, 5, 6] [0, 0, 0, 0] ?W)"
      by (rule second)
  qed
qed

section \<open>The constraint vector and its bounds\<close>

text \<open>
  Claim C3, as stated, fails: for \<open>N = 3\<close> the bounds pinned to the state sit in rows
  \<open>0, 3, 6, 9, 12, 15\<close> of the constraint vector, not in rows \<open>0..5\<close>; row \<open>1\<close> is
  bounded by \<open>0\<close> and row \<open>3\<close> by the second component of the state.
\<close>

theorem constraint_bounds_counterexample:
  "map_sum id gl (Solve_setup \<lparr>N = 3, dt = 0.1, Lf = 2.67, ref_v = 40\<rparr> stale [1, 2, 3, 4, 5, 6] [0, 0, 0, 0])
     = Inr [1, 0, 0, 2, 0, 0, 3, 0, 0, 4, 0, 0, 5, 0, 0, 6, 0, 0]
   \<and> map_sum id gu (Solve_setup \<lparr>N = 3, dt = 0.1, Lf = 2.67, ref_v = 40\<rparr> stale [1, 2, 3, 4, 5, 6] [0, 0, 0, 0])
     = Inr [1, 0, 0, 2, 0, 0, 3, 0, 0, 4, 0, 0, 5, 0, 0, 6, 0, 0]"
  by (simp add: Solve_setup_closed start_defs eval_nat_numeral)

lemma pinned_nth:
  assumes n: "0 < N cfg" and len: "N cfg * 6 \<le> length v"
  shows "\<And>k. k < 6 \<Longrightarrow>
           v[x_start cfg := s ! 0, y_start cfg := s ! 1, psi_start cfg := s ! 2,
             v_start cfg := s ! 3, cte_start cfg := s ! 4, epsi_start cfg := s ! 5] ! (k * N cfg)
           = s ! k"
    and "\<And>j. j < length v \<Longrightarrow> (\<forall>k<6. j \<noteq> k * N cfg) \<Longrightarrow>
           v[x_start cfg := s ! 0, y_start cfg := s ! 1, psi_start cfg := s ! 2,
             v_start cfg := s ! 3, cte_start cfg := s ! 4, epsi_start cfg := s ! 5] ! j
           = v ! j"
proof -
  have starts: "x_start cfg = 0" "y_start cfg = N cfg" "psi_start cfg = 2 * N cfg"
    "v_start cfg = 3 * N cfg" "cte_start cfg = 4 * N cfg" "epsi_start cfg = 5 * N cfg"
    by (simp_all add: start_defs)
  from n len have ne: "v \<noteq> []" by auto
  let ?w = "v[0 := s ! 0, N cfg := s ! 1, 2 * N cfg := s ! 2,
              3 * N cfg := s ! 3, 4 * N cfg := s ! 4, 5 * N cfg := s ! 5]"
  show "v[x_start cfg := s ! 0, y_start cfg := s ! 1, psi_start cfg := s ! 2,
             v_start cfg := s ! 3, cte_start cfg := s ! 4, epsi_start cfg := s ! 5] ! (k * N cfg)
           = s ! k" if "k < 6" for k
    unfolding starts using that
  proof (rule less_6_cases)
    show "?w ! (0 * N cfg) = s ! 0" using n len ne by simp
    show "?w ! (1 * N cfg) = s ! 1" using n len by simp
    show "?w ! (2 * N cfg) = s ! 2" using n len by simp
    show "?w ! (3 * N cfg) = s ! 3" using n len by simp
    show "?w ! (4 * N cfg) = s ! 4" using n len by simp
    show "?w ! (5 * N cfg) = s ! 5" using n len by simp
  qed
  show "v[x_start cfg := s ! 0, y_start cfg := s ! 1, psi_start cfg := s ! 2,
             v_start cfg := s ! 3, cte_start cfg := s ! 4, epsi_start cfg := s ! 5] ! j
           = v ! j" if "j < length v" and other: "\<forall>k<6. j \<noteq> k * N cfg" for j
  proof -
    from other [rule_format, of 0] other [rule_format, of 1] other [rule_format, of 2]
      other [rule_format, of 3] other [rule_format, of 4] other [rule_format, of 5]
    have "j \<noteq> 0" "j \<noteq> N cfg" "j \<noteq> 2 * N cfg" "j \<noteq> 3 * N cfg" "j \<noteq> 4 * N cfg" "j \<noteq> 5 * N cfg"
      by simp_all
    then show ?thesis unfolding starts by simp
  qed
qed

text \<open>
  Claim C3, amended. Whatever the fresh vectors hold, and whatever the vector \<open>fg\<close> that
  the evaluator is handed holds, the constraint vector and its two bound vectors have
  length \<open>N * 6\<close>.
  The rows are laid out channel by channel, as the decision variables are: row
  \<open>k * N + t\<close> belongs to channel \<open>k\<close> (x, y, psi, v, cte, epsi for \<open>k = 0..5\<close>) and step
  \<open>t\<close>. The initial-state block is made of the rows \<open>k * N\<close>: row \<open>k * N\<close> holds the
  decision variable of channel \<open>k\<close> at step \<open>0\<close>, and both of its bounds are component
  \<open>k\<close> of the state. Every other row \<open>k * N + t\<close>, \<open>1 \<le> t < N\<close>, holds the value of the
  channel at step \<open>t\<close> minus the predicted value, and both of its bounds are \<open>0\<close>.
  (Row \<open>j\<close> of the constraint vector is entry \<open>1 + j\<close> of \<open>fg\<close>.)
\<close>

theorem constraint_layout:
  assumes "0 < N cfg" and "6 \<le> length state"
    and "N cfg * 6 + (N cfg - 1) * 2 \<le> length vars" and "4 \<le> length coeffs"
    and "length fg = 1 + N cfg * 6" and "Lf cfg \<noteq> 0"
  shows "\<exists>p fg'. Solve_setup cfg unset state coeffs = Inr p
     \<and> length (gl p) = N cfg * 6 \<and> length (gu p) = N cfg * 6
     \<and> (\<forall>k<6. gl p ! (k * N cfg) = state ! k \<and> gu p ! (k * N cfg) = state ! k)
     \<and> (\<forall>j < N cfg * 6. (\<forall>k<6. j \<noteq> k * N cfg) \<longrightarrow> gl p ! j = 0 \<and> gu p ! j = 0)
     \<and> fg_eval p fg vars = Inr fg'
     \<and> length fg' = 1 + N cfg * 6
     \<and> (\<forall>k<6. fg' ! (1 + k * N cfg) = vars ! (k * N cfg))
     \<and> (\<forall>k<6. \<forall>t. 1 \<le> t \<and> t < N cfg \<longrightarrow>
           fg' ! (1 + k * N cfg + t)
             = vars ! (k * N cfg + t) - spec_predicted cfg coeffs vars t ! k)"
proof -
  have "\<exists>fg'. FG_eval cfg coeffs fg vars = Inr fg'"
    using assms(1,3,4,5) by (intro FG_eval_returns) simp_all
  then obtain fg' where run: "FG_eval cfg coeffs fg vars = Inr fg'" ..
  note rows = FG_eval_rows [OF run assms(1)]
  obtain p where su: "Solve_setup cfg unset state coeffs = Inr p"
    and gl: "gl p = (replicate (N cfg * 6) 0)
                 [x_start cfg := state ! 0, y_start cfg := state ! 1,
                  psi_start cfg := state ! 2, v_start cfg := state ! 3,
                  cte_start cfg := state ! 4, epsi_start cfg := state ! 5]"
    and gu: "gu p = (replicate (N cfg * 6) 0)
                 [x_start cfg := state ! 0, y_start cfg := state ! 1,
                  psi_start cfg := state ! 2, v_start cfg := state ! 3,
                  cte_start cfg := state ! 4, epsi_start cfg := state ! 5]"
    and ev: "fg_eval p = FG_eval cfg coeffs"
    using Solve_setup_closed [OF assms(1,2), of unset coeffs] by simp
  have len: "length (gl p) = N cfg * 6" "length (gu p) = N cfg * 6"
    by (simp_all add: gl gu)
  have pins: "gl p ! (k * N cfg) = state ! k \<and> gu p ! (k * N cfg) = state ! k" if "k < 6" for k
    unfolding gl gu using pinned_nth(1) [OF assms(1) _ that, of "replicate (N cfg * 6) 0" state]
    by simp
  have zeros: "gl p ! j = 0 \<and> gu p ! j = 0" if "j < N cfg * 6" "\<forall>k<6. j \<noteq> k * N cfg" for j
    unfolding gl gu using pinned_nth(2) [OF assms(1), of "replicate (N cfg * 6) 0" j state] that
    by simp
  have run': "fg_eval p fg vars = Inr fg'"
    using run by (simp add: ev)
  have flen: "length fg' = 1 + N cfg * 6"
    by (simp add: rows(1) assms(5))
  from su len pins zeros run' flen rows(2,3) show ?thesis by blast
qed

theorem constraint_layout_witness:
  "\<exists>p fg'. Solve_setup \<lparr>N = 3, dt = 0.1, Lf = 2.67, ref_v = 40\<rparr> stale [1, 2, 3, 4, 5, 6] [1, 0, 0, 0] = Inr p
     \<and> length (gl p) = 18 \<and> length (gu p) = 18
     \<and> gl p ! 3 = 2 \<and> gu p ! 3 = 2 \<and> gl p ! 1 = 0 \<and> gu p ! 1 = 0
     \<and> fg_eval p (replicate 19 5)
          [0, 0, 0, 0, 0, 0, 0, 0, 0, 10, 0, 0, 0, 0, 0, 0, 0, 0, 0.1, 0, 1, 0] = Inr fg'
     \<and> length fg' = 19 \<and> fg' ! 10 = 10 \<and> fg' ! 11 = - 10.1"
proof -
  let ?C = "\<lparr>N = 3, dt = 0.1, Lf = 2.67, ref_v = 40\<rparr>"
  let ?V = "[0, 0, 0, 0, 0, 0, 0, 0, 0, 10, 0, 0, 0, 0, 0, 0, 0, 0, 0.1, 0, 1, 0] :: real list"
  from constraint_layout [of ?C "[1, 2, 3, 4, 5, 6]" ?V "[1, 0, 0, 0]" "replicate 19 5" stale]
  obtain p fg' where su: "Solve_setup ?C stale [1, 2, 3, 4, 5, 6] [1, 0, 0, 0] = Inr p"
    and len: "length (gl p) = 18" "length (gu p) = 18"
    and pins: "\<forall>k<6. gl p ! (k * 3) = [1, 2, 3, 4, 5, 6] ! k \<and> gu p ! (k * 3) = [1, 2, 3, 4, 5, 6] ! k"
    and zeros: "\<forall>j<18. (\<forall>k<6. j \<noteq> k * 3) \<longrightarrow> gl p ! j = 0 \<and> gu p ! j = 0"
    and run: "fg_eval p (replicate 19 5) ?V = Inr fg'"
    and flen: "length fg' = 19"
    and first: "\<forall>k<6. fg' ! (1 + k * 3) = ?V ! (k * 3)"
    and rest: "\<forall>k<6. \<forall>t. 1 \<le> t \<and> t < 3 \<longrightarrow>
                 fg' ! (1 + k * 3 + t) = ?V ! (k * 3 + t) - spec_predicted ?C [1, 0, 0, 0] ?V t ! k"
    by (elim meta_impE exE conjE; simp)
  have "\<forall>k<6. (1::nat) \<noteq> k * 3" by presburger
  with zeros [rule_format, of 1] have "gl p ! 1 = 0 \<and> gu p ! 1 = 0" by simp
  moreover from pins [rule_format, of 1] have "gl p ! 3 = 2 \<and> gu p ! 3 = 2" by simp
  moreover from first [rule_format, of 3] have "fg' ! 10 = 10" by simp
  moreover from rest [rule_format, of 3 1] have "fg' ! 11 = - 10.1"
    by (simp add: spec_predicted_def start_defs)
  ultimately show ?thesis using su len run flen by blast
qed

section \<open>The all-zero point\<close>

text \<open>
  Claim C8, as stated, fails: for \<open>N = 3\<close> and \<open>ref_v = 40\<close>, with the zero polynomial, the
  objective at the all-zero decision vector is \<open>32000\<close>, the speed cost of two steps at
  speed \<open>0\<close>.
\<close>

theorem zero_point_counterexample:
  "map_sum id hd (FG_eval \<lparr>N = 3, dt = 0.1, Lf = 2.67, ref_v = 40\<rparr> [0, 0, 0, 0]
      (replicate 19 0) (replicate 22 0)) = Inr 32000"
proof -
  let ?C = "\<lparr>N = 3, dt = 0.1, Lf = 2.67, ref_v = 40\<rparr>"
  have "\<exists>fg'. FG_eval ?C [0, 0, 0, 0] (replicate 19 0) (replicate 22 0) = Inr fg'"
    by (rule FG_eval_returns) simp_all
  then obtain fg' where run: "FG_eval ?C [0, 0, 0, 0] (replicate 19 0) (replicate 22 0) = Inr fg'" ..
  have "length fg' = 19" using FG_eval_rows(1) [OF run] by simp
  then have "hd fg' = fg' ! 0" by (cases fg') simp_all
  also have "\<dots> = 32000"
    unfolding FG_eval_cost [OF run]
    by (simp add: start_defs numeral_3_eq_3 numeral_2_eq_2 sum.atLeast_Suc_lessThan)
  finally show ?thesis unfolding run by simp
qed

lemma spec_predicted_zero:
  assumes "0 < N cfg" and "1 \<le> t" and "t < N cfg" and "k < 6"
  shows "spec_predicted cfg [0, 0, 0, 0] (replicate (N cfg * 6 + (N cfg - 1) * 2) 0) t ! k = 0"
proof -
  have "spec_predicted cfg [0, 0, 0, 0] (replicate (N cfg * 6 + (N cfg - 1) * 2) 0) t
          = [0, 0, 0, 0, 0, 0]"
    using assms(1-3) by (simp add: spec_predicted_def start_defs)
  with assms(4) show ?thesis by (simp add: nth_Cons')
qed

text \<open>
  Claim C8, amended. With the zero state and the zero polynomial (and \<open>Lf \<noteq> 0\<close>),
  whatever the fresh vectors hold and whatever the vector that the evaluator is handed
  holds, the all-zero decision vector is feasible for the problem that \<open>Solve\<close> sets up,
  and the objective at it is \<open>10 * (N - 1) * ref_v\<^sup>2\<close>: it is \<open>0\<close> when \<open>ref_v = 0\<close> or
  \<open>N = 1\<close>, and positive otherwise.
\<close>

theorem zero_point:
  assumes n: "0 < N cfg" and lf: "Lf cfg \<noteq> 0" and fg0: "length fg0 = 1 + N cfg * 6"
  shows "\<exists>p fg'. Solve_setup cfg unset [0, 0, 0, 0, 0, 0] [0, 0, 0, 0] = Inr p
     \<and> feasible p fg0 (replicate (N cfg * 6 + (N cfg - 1) * 2) 0)
     \<and> fg_eval p fg0 (replicate (N cfg * 6 + (N cfg - 1) * 2) 0) = Inr fg'
     \<and> fg' ! 0 = 10 * real (N cfg - 1) * (ref_v cfg) ^ 2"
proof -
  define nv where "nv = N cfg * 6 + (N cfg - 1) * 2"
  let ?Z = "replicate nv (0::real)"
  have same: "(replicate m (0::real))[i := 0] = replicate m 0" for m i
    by (cases "i < m") (auto intro!: nth_equalityI simp: nth_list_update)
  obtain p where su: "Solve_setup cfg unset [0, 0, 0, 0, 0, 0] [0, 0, 0, 0] = Inr p"
    and gl: "gl p = replicate (N cfg * 6) 0" and gu: "gu p = replicate (N cfg * 6) 0"
    and xl: "xl p = map (\<lambda>i. if i < delta_start cfg then - (10 ^ 19)
                          else if i < a_start cfg then - 0.436332 else - 1) [0..<nv]"
    and xu: "xu p = map (\<lambda>i. if i < delta_start cfg then 10 ^ 19
                          else if i < a_start cfg then 0.436332 else 1) [0..<nv]"
    and ev: "fg_eval p = FG_eval cfg [0, 0, 0, 0]"
    using Solve_setup_closed [OF n, of "[0, 0, 0, 0, 0, 0]" unset "[0, 0, 0, 0]"]
    by (simp add: same nv_def)
  have "\<exists>fg'. FG_eval cfg [0, 0, 0, 0] fg0 ?Z = Inr fg'"
    using n fg0 by (intro FG_eval_returns) (simp_all add: nv_def)
  then obtain fg' where run: "FG_eval cfg [0, 0, 0, 0] fg0 ?Z = Inr fg'" ..
  note rows = FG_eval_rows [OF run n]
  have flen: "length fg' = 1 + N cfg * 6" by (simp add: rows(1) fg0)
  have row0: "fg' ! (1 + j) = 0" if j: "j < N cfg * 6" for j
  proof -
    define k t where "k = j div N cfg" and "t = j mod N cfg"
    have jk: "j = k * N cfg + t" by (simp add: k_def t_def)
    have t: "t < N cfg" using n by (simp add: t_def)
    have k: "k < 6" using j n unfolding k_def by (simp add: less_mult_imp_div_less)
    have inr: "k * N cfg + t < nv"
    proof -
      from k have "k * N cfg \<le> 5 * N cfg" by simp
      with t show ?thesis unfolding nv_def by linarith
    qed
    show ?thesis
    proof (cases "t = 0")
      case True
      with rows(2) [OF k] inr show ?thesis by (simp add: jk nv_def)
    next
      case False
      then have "1 \<le> t" by simp
      from rows(3) [OF k this t] inr spec_predicted_zero [OF n this t k]
      show ?thesis by (simp add: jk nv_def add.assoc)
    qed
  qed
  have tl: "tl fg' = replicate (N cfg * 6) 0"
    using flen row0 by (intro nth_equalityI) (simp_all add: nth_tl)
  have run': "fg_eval p fg0 ?Z = Inr fg'"
    using run by (simp add: ev)
  have "list_all2 (\<le>) (xl p) ?Z" and "list_all2 (\<le>) ?Z (xu p)"
    by (simp_all add: xl xu list_all2_conv_all_nth)
  moreover have "list_all2 (\<le>) (gl p) (tl fg')" and "list_all2 (\<le>) (tl fg') (gu p)"
    by (simp_all add: gl gu tl list_all2_conv_all_nth)
  ultimately have feas: "feasible p fg0 ?Z"
    using run' by (simp add: feasible_def)
  have z: "?Z ! i = 0" if "i < nv" for i using that by simp
  have "fg' ! 0 = (\<Sum>t = 1..<N cfg. 10 * (ref_v cfg) ^ 2)"
  proof -
    have s1: "(\<Sum>t = 0..<N cfg. 1000 * (?Z ! (cte_start cfg + t)) ^ 2
                        + 1000 * (?Z ! (epsi_start cfg + t)) ^ 2) = 0"
      by (rule sum.neutral) (simp add: start_defs nv_def)
    have s2: "(\<Sum>t = 1..<N cfg. 10 * (?Z ! (v_start cfg + t) - ref_v cfg) ^ 2)
                = (\<Sum>t = 1..<N cfg. 10 * (ref_v cfg) ^ 2)"
      by (rule sum.cong) (simp_all add: start_defs nv_def)
    have s3: "(\<Sum>t = 0..<N cfg - 1. 3 * (?Z ! (delta_start cfg + t)) ^ 2
                            + 3 * (?Z ! (a_start cfg + t)) ^ 2) = 0"
      by (rule sum.neutral) (simp add: start_defs nv_def)
    have s4: "(\<Sum>t = 0..<N cfg - 2.
         1000 * (?Z ! (delta_start cfg + t + 1) - ?Z ! (delta_start cfg + t)) ^ 2
         + 1 * (?Z ! (a_start cfg + t + 1) - ?Z ! (a_start cfg + t)) ^ 2) = 0"
      by (rule sum.neutral) (simp add: start_defs nv_def)
    show ?thesis
      unfolding FG_eval_cost [OF run] s1 s2 s3 s4 by simp
  qed
  also have "\<dots> = 10 * real (N cfg - 1) * (ref_v cfg) ^ 2"
    by simp
  finally have obj: "fg' ! 0 = 10 * real (N cfg - 1) * (ref_v cfg) ^ 2" .
  from su feas run' obj show ?thesis unfolding nv_def by blast
qed

theorem zero_point_witness:
  "\<exists>p fg'. Solve_setup \<lparr>N = 3, dt = 0.1, Lf = 2.67, ref_v = 40\<rparr> stale [0, 0, 0, 0, 0, 0] [0, 0, 0, 0] = Inr p
     \<and> feasible p (replicate 19 5) (replicate 22 0)
     \<and> fg_eval p (replicate 19 5) (replicate 22 0) = Inr fg'
     \<and> fg' ! 0 = 32000"
  using zero_point [of "\<lparr>N = 3, dt = 0.1, Lf = 2.67, ref_v = 40\<rparr>" "replicate 19 5" stale] by simp

end
